theory Spec2Isabelle
  imports Main "HOL-Library.Sublist" "HOL-Library.AList" "HOL-Library.Multiset"
begin

section \<open>Python values, exceptions and strings\<close>

text \<open>
  The pipeline of \<^verbatim>\<open>SCENIC/pySCENIC_pipeline.py\<close> is embedded function by function.
  A Python exception is a value of \<open>error\<close>; a call that may raise returns
  \<open>error + 'a\<close> with \<open>Inl\<close> for the exception. The constructors are the exception
  classes the script and the library calls it makes can raise; the script defines no
  exception class of its own. Strings are ASCII.
\<close>

datatype error =
    ValueError string
  | KeyError string
  | FileNotFoundError string
  | FileExistsError string
  | NotADirectoryError string
  | IsADirectoryError string
  | CalledProcessError nat string
  | LibraryError string

text \<open>
  \<open>LibraryError c\<close> is an exception of class \<open>c\<close> raised inside a library call.
\<close>

text \<open>The name of the Python class of an exception.\<close>

fun class_name :: "error \<Rightarrow> string" where
  "class_name (ValueError m) = ''ValueError''"
| "class_name (KeyError k) = ''KeyError''"
| "class_name (FileNotFoundError p) = ''FileNotFoundError''"
| "class_name (FileExistsError p) = ''FileExistsError''"
| "class_name (NotADirectoryError p) = ''NotADirectoryError''"
| "class_name (IsADirectoryError p) = ''IsADirectoryError''"
| "class_name (CalledProcessError rc cmd) = ''CalledProcessError''"
| "class_name (LibraryError c) = c"

text \<open>Truth value of an optional string: \<^verbatim>\<open>None\<close> and \<^verbatim>\<open>''\<close> are false.\<close>

definition truthy :: "string option \<Rightarrow> bool" where
  "truthy v = (case v of None \<Rightarrow> False | Some s \<Rightarrow> s \<noteq> [])"

text \<open>\<^verbatim>\<open>str.lower\<close> on ASCII text.\<close>

definition lower_char :: "char \<Rightarrow> char" where
  "lower_char c =
     (if (65::nat) \<le> of_char c \<and> of_char c \<le> (90::nat)
      then char_of (of_char c + (32::nat)) else c)"

definition lower :: "string \<Rightarrow> string" where
  "lower s = map lower_char s"

text \<open>\<^verbatim>\<open>sep.join(xs)\<close>.\<close>

fun str_join :: "string \<Rightarrow> string list \<Rightarrow> string" where
  "str_join sep [] = []"
| "str_join sep [x] = x"
| "str_join sep (x # y # ys) = x @ sep @ str_join sep (y # ys)"

section \<open>Paths and the filesystem\<close>

text \<open>
  \<^verbatim>\<open>os.path.join\<close> of \<^verbatim>\<open>posixpath\<close>: a component that starts with the separator
  discards what came before it; otherwise it is appended, with a separator unless the
  path so far is empty or already ends with one.
\<close>

definition join2 :: "string \<Rightarrow> string \<Rightarrow> string" where
  "join2 path b =
     (if b \<noteq> [] \<and> hd b = CHR ''/'' then b
      else if path = [] \<or> last path = CHR ''/'' then path @ b
      else path @ ''/'' @ b)"

definition os_path_join :: "string \<Rightarrow> string list \<Rightarrow> string" where
  "os_path_join a p = foldl join2 a p"

text \<open>
  The filesystem is a list of entries (the order is the order a directory listing
  returns them in), each a path given by its components and the kind of node there.
  A path string is read as its non-empty components, with a leading \<open>''/''\<close> component
  when it is absolute. The root and the working directory always exist. Symbolic links,
  the components \<^verbatim>\<open>.\<close> and \<^verbatim>\<open>..\<close>, and permissions are outside the model.
\<close>

datatype node = Dir | File

type_synonym fs = "(string list \<times> node) list"

fun split_on :: "char \<Rightarrow> string \<Rightarrow> string list" where
  "split_on c [] = [[]]"
| "split_on c (x # xs) =
     (if x = c then [] # split_on c xs
      else (case split_on c xs of
              [] \<Rightarrow> [[x]]
            | w # ws \<Rightarrow> (x # w) # ws))"

definition components :: "string \<Rightarrow> string list" where
  "components p =
     (if p \<noteq> [] \<and> hd p = CHR ''/'' then [''/''] else [])
       @ filter (\<lambda>c. c \<noteq> []) (split_on CHR ''/'' p)"

definition node_at :: "fs \<Rightarrow> string list \<Rightarrow> node option" where
  "node_at fs cs = (if cs = [] \<or> cs = [''/''] then Some Dir else map_of fs cs)"

definition is_dir :: "fs \<Rightarrow> string \<Rightarrow> bool" where
  "is_dir fs p = (p \<noteq> [] \<and> node_at fs (components p) = Some Dir)"

definition is_file :: "fs \<Rightarrow> string \<Rightarrow> bool" where
  "is_file fs p = (p \<noteq> [] \<and> node_at fs (components p) = Some File)"

text \<open>
  What the path names: following it from the front, a missing component gives no entry
  and a file before the last component is not a directory; a file named with a trailing
  separator is not a directory either. This is what opening the path for reading meets:
  \<^verbatim>\<open>FileNotFoundError\<close>, \<^verbatim>\<open>NotADirectoryError\<close>, \<^verbatim>\<open>IsADirectoryError\<close>, or a file.
\<close>

datatype stat = NoEntry | NotDir | IsFile | IsDir

fun stat_walk :: "fs \<Rightarrow> string list list \<Rightarrow> stat" where
  "stat_walk fs [] = IsDir"
| "stat_walk fs [p] =
     (case node_at fs p of None \<Rightarrow> NoEntry | Some Dir \<Rightarrow> IsDir | Some File \<Rightarrow> IsFile)"
| "stat_walk fs (p # q # ps) =
     (case node_at fs p of
        None \<Rightarrow> NoEntry
      | Some File \<Rightarrow> NotDir
      | Some Dir \<Rightarrow> stat_walk fs (q # ps))"

definition stat_path :: "fs \<Rightarrow> string \<Rightarrow> stat" where
  "stat_path fs p =
     (if p = [] then NoEntry
      else (case stat_walk fs (tl (prefixes (components p))) of
              IsFile \<Rightarrow> (if last p = CHR ''/'' then NotDir else IsFile)
            | r \<Rightarrow> r))"

fun open_error :: "stat \<Rightarrow> string \<Rightarrow> error option" where
  "open_error NoEntry p = Some (FileNotFoundError p)"
| "open_error NotDir p = Some (NotADirectoryError p)"
| "open_error IsDir p = Some (IsADirectoryError p)"
| "open_error IsFile p = None"

text \<open>
  The path strings the model reads as the code does: no component \<^verbatim>\<open>.\<close> or
  \<^verbatim>\<open>..\<close>, no component longer than 255 characters, no null character and fewer
  than 4096 characters in all; for \<^verbatim>\<open>glob\<close>, none of its wildcard characters; for a
  file that \<^verbatim>\<open>pandas\<close> opens, no colon (which would make it a URL) and no leading
  tilde (which would be expanded to the home directory). The entries of a filesystem are
  keyed by such component lists.
\<close>

definition plain_path :: "string \<Rightarrow> bool" where
  "plain_path p =
     (list_all (\<lambda>c. c \<noteq> ''.'' \<and> c \<noteq> ''..'' \<and> length c \<le> 255) (components p) \<and>
      CHR 0x00 \<notin> set p \<and> length p < 4096)"

definition no_wildcards :: "string \<Rightarrow> bool" where
  "no_wildcards p = list_all (\<lambda>c. c \<notin> set ''*?['') p"

definition local_path :: "string \<Rightarrow> bool" where
  "local_path p =
     (plain_path p \<and> CHR '':'' \<notin> set p \<and> (p = [] \<or> hd p \<noteq> CHR ''~''))"

text \<open>
  \<^verbatim>\<open>os.makedirs(name, exist_ok=True)\<close>. The call works on the ancestors of \<open>name\<close>
  from the outermost on, each named by the part of \<open>name\<close> up to the end of one of its
  components, and last on \<open>name\<close> itself: a missing directory is created, one that is
  already there is accepted, and a file is an error, \<^verbatim>\<open>FileExistsError\<close> for \<open>name\<close>
  itself and \<^verbatim>\<open>NotADirectoryError\<close>, raised for the path just below the file, for an
  ancestor. The empty name is an error.
\<close>

definition cut_points :: "string \<Rightarrow> nat list" where
  "cut_points name =
     filter (\<lambda>n. name ! (n - 1) \<noteq> CHR ''/'' \<and> (n = length name \<or> name ! n = CHR ''/''))
       [1..<Suc (length name)]"

definition path_chain :: "string \<Rightarrow> string list" where
  "path_chain name = map (\<lambda>n. take n name) (butlast (cut_points name)) @ [name]"

fun make_each :: "fs \<Rightarrow> string list \<Rightarrow> error option \<times> fs" where
  "make_each fs [] = (None, fs)"
| "make_each fs (s # ss) =
     (case node_at fs (components s) of
        Some Dir \<Rightarrow> make_each fs ss
      | Some File \<Rightarrow>
          (Some (case ss of [] \<Rightarrow> FileExistsError s | t # ts \<Rightarrow> NotADirectoryError t), fs)
      | None \<Rightarrow> make_each (fs @ [(components s, Dir)]) ss)"

definition makedirs :: "fs \<Rightarrow> string \<Rightarrow> error option \<times> fs" where
  "makedirs fs name =
     (if name = [] then (Some (FileNotFoundError name), fs)
      else make_each fs (path_chain name))"

text \<open>The loop \<^verbatim>\<open>for folder in paths.values(): os.makedirs(folder, exist_ok=True)\<close>.\<close>

fun makedirs_all :: "fs \<Rightarrow> string list \<Rightarrow> error option \<times> fs" where
  "makedirs_all fs [] = (None, fs)"
| "makedirs_all fs (d # ds) =
     (case makedirs fs d of
        (Some e, fs') \<Rightarrow> (Some e, fs')
      | (None, fs') \<Rightarrow> makedirs_all fs' ds)"

text \<open>
  \<^verbatim>\<open>glob.glob(os.path.join(d, '*.feather'))\<close> for a directory name \<open>d\<close> that is
  taken literally (\<open>no_wildcards d\<close> and \<open>plain_path d\<close>; a statement about the
  listing assumes both): the entries of \<open>d\<close>, in listing order, whose name does not
  start with a dot and ends with \<^verbatim>\<open>.feather\<close>, each joined to \<open>d\<close>.
\<close>

definition matches_feather :: "string \<Rightarrow> bool" where
  "matches_feather name = (name \<noteq> [] \<and> hd name \<noteq> CHR ''.'' \<and> suffix ''.feather'' name)"

definition glob_feather :: "fs \<Rightarrow> string \<Rightarrow> string list" where
  "glob_feather fs d =
     map (\<lambda>e. join2 d (last (fst e)))
       (filter (\<lambda>e. fst e \<noteq> [] \<and> butlast (fst e) = components d \<and> matches_feather (last (fst e))) fs)"

section \<open>DataLoader.get_analysis_paths\<close>

text \<open>
  The dictionary of paths is an association list in insertion order; assigning to a key
  that is present keeps its position, as a Python dictionary does.
\<close>

type_synonym paths = "(string \<times> string) list"

definition getitem :: "paths \<Rightarrow> string \<Rightarrow> error + string" where
  "getitem ps k = (case map_of ps k of None \<Rightarrow> Inl (KeyError k) | Some v \<Rightarrow> Inr v)"

definition dict_update :: "paths \<Rightarrow> (string \<times> string) list \<Rightarrow> paths" where
  "dict_update ps kvs = fold (\<lambda>kv. AList.update (fst kv) (snd kv)) kvs ps"

definition base_paths :: "string \<Rightarrow> string \<Rightarrow> string \<Rightarrow> paths" where
  "base_paths base_folder dataset_id sample_id =
     [(''base'', base_folder),
      (''databases'', os_path_join base_folder [''databases'']),
      (''raw_data'', os_path_join base_folder [dataset_id, ''raw_data'']),
      (''output'', os_path_join base_folder [dataset_id, sample_id]),
      (''figures'', os_path_join base_folder [dataset_id, sample_id, ''figures''])]"

definition adjust_output :: "bool option \<Rightarrow> paths \<Rightarrow> paths" where
  "adjust_output pruning ps =
     (case pruning of
        None \<Rightarrow> ps
      | Some p \<Rightarrow>
          AList.update ''output''
            (os_path_join (the (map_of ps ''output'')) [if p then ''pruned'' else ''unpruned''])
            ps)"

definition file_paths :: "fs \<Rightarrow> string \<Rightarrow> paths \<Rightarrow> (string \<times> string) list" where
  "file_paths fs sfx ps =
     (let databases = the (map_of ps ''databases'');
          raw_data = the (map_of ps ''raw_data'');
          output = the (map_of ps ''output'')
      in [(''human_tfs'', os_path_join databases [''allTFs_hg38.txt'']),
          (''ranking_dbs'', str_join '' '' (glob_feather fs databases)),
          (''motif_annotations'',
             os_path_join databases [''motifs-v10nr_clust-nr.hgnc-m0.001-o0.0.tbl'']),
          (''raw_matrix'',
             os_path_join raw_data
               [''C3L-00004-T1_CPT0001540013_snRNA_ccRCC/outs/raw_feature_bc_matrix/'']),
          (''metadata'',
             os_path_join raw_data [''GSE240822_GBM_ccRCC_RNA_metadata_CPTAC_samples.tsv.gz'']),
          (''anndata'', os_path_join output [sfx @ ''anndata.h5ad'']),
          (''filtered_loom'', os_path_join output [sfx @ ''filtered_scenic.loom'']),
          (''adjacencies'', os_path_join output [sfx @ ''adjacencies.csv'']),
          (''regulons'', os_path_join output [sfx @ ''reg.csv'']),
          (''pyscenic_output'', os_path_join output [sfx @ ''pyscenic_output.loom'']),
          (''aucell_mtx'', os_path_join output [sfx @ ''auc.csv''])])"

text \<open>
  The resolver returns the dictionary, or the exception it raised, together with the
  filesystem it leaves behind (the directories made before a failure stay).
\<close>

definition get_analysis_paths ::
  "fs \<Rightarrow> string \<Rightarrow> string \<Rightarrow> string \<Rightarrow> string option \<Rightarrow> bool option \<Rightarrow> (error + paths) \<times> fs" where
  "get_analysis_paths fs base_folder dataset_id sample_id cell_type pruning =
     (if truthy cell_type \<and> the cell_type \<notin> set [''Tumor'', ''Non-Tumor'']
      then (Inl (ValueError ''cell_type must be 'Tumor', 'Non-Tumor', or None''), fs)
      else
        let ps = base_paths base_folder dataset_id sample_id in
        (case makedirs_all fs (map snd ps) of
           (Some e, fs') \<Rightarrow> (Inl e, fs')
         | (None, fs') \<Rightarrow>
             let ps1 = adjust_output pruning ps;
                 sfx = (if truthy cell_type then the cell_type @ ''_'' else [])
             in (Inr (dict_update ps1 (file_paths fs' sfx ps1)), fs')))"

section \<open>GRNInference: the three command builders\<close>

text \<open>
  Each builder formats a shell command from entries of the path dictionary and returns
  it with the path of the file the command writes. A missing key raises \<^verbatim>\<open>KeyError\<close>.
\<close>

record config =
  command :: string
  output_path :: string

definition bind_err :: "error + 'a \<Rightarrow> ('a \<Rightarrow> error + 'b) \<Rightarrow> error + 'b" where
  "bind_err x f = (case x of Inl e \<Rightarrow> Inl e | Inr v \<Rightarrow> f v)"

definition run_grn_inference :: "paths \<Rightarrow> error + config" where
  "run_grn_inference ps =
     bind_err (getitem ps ''filtered_loom'') (\<lambda>loom.
     bind_err (getitem ps ''human_tfs'') (\<lambda>tfs.
     bind_err (getitem ps ''adjacencies'') (\<lambda>adj.
       Inr \<lparr>command = ''pyscenic grn '' @ loom @ '' '' @ tfs @ '' -o '' @ adj
                         @ '' --num_workers 20'',
            output_path = adj\<rparr>)))"

definition ctx_base_command :: "string \<Rightarrow> string \<Rightarrow> string \<Rightarrow> string \<Rightarrow> string \<Rightarrow> string" where
  "ctx_base_command adj dbs motifs loom reg =
     ''pyscenic ctx '' @ adj @ '' '' @ dbs @ '' ''
       @ ''--annotations_fname '' @ motifs @ '' ''
       @ ''--expression_mtx_fname '' @ loom @ '' ''
       @ ''--output '' @ reg @ '' ''
       @ ''--mask_dropouts --num_workers 20''"

definition run_ctx_inference :: "paths \<Rightarrow> bool option \<Rightarrow> error + config" where
  "run_ctx_inference ps pruning =
     bind_err (getitem ps ''adjacencies'') (\<lambda>adj.
     bind_err (getitem ps ''ranking_dbs'') (\<lambda>dbs.
     bind_err (getitem ps ''motif_annotations'') (\<lambda>motifs.
     bind_err (getitem ps ''filtered_loom'') (\<lambda>loom.
     bind_err (getitem ps ''regulons'') (\<lambda>reg.
       let base_command = ctx_base_command adj dbs motifs loom reg;
           base_command' =
             (if pruning = Some False then base_command @ '' --no_pruning'' else base_command)
       in Inr \<lparr>command = base_command', output_path = reg\<rparr>)))))"

definition run_aucell :: "paths \<Rightarrow> error + config" where
  "run_aucell ps =
     bind_err (getitem ps ''filtered_loom'') (\<lambda>loom.
     bind_err (getitem ps ''regulons'') (\<lambda>reg.
     bind_err (getitem ps ''pyscenic_output'') (\<lambda>out.
       Inr \<lparr>command = ''pyscenic aucell '' @ loom @ '' '' @ reg @ '' --output '' @ out
                         @ '' --num_workers 20'',
            output_path = out\<rparr>)))"

section \<open>parse_arguments\<close>

text \<open>
  The two options as \<^verbatim>\<open>argparse\<close> delivers them (a string, or \<^verbatim>\<open>None\<close> when the
  option is absent). Both are lower-cased before they are checked, and the cell type
  is returned lower-cased.
\<close>

definition parse_prune :: "string option \<Rightarrow> error + bool option" where
  "parse_prune prune =
     (case prune of
        None \<Rightarrow> Inr None
      | Some s \<Rightarrow>
          (let l = lower s in
           if l = ''true'' then Inr (Some True)
           else if l = ''false'' then Inr (Some False)
           else if l = ''none'' then Inr None
           else Inl (ValueError ''Invalid value for --prune. Must be 'true', 'false', or 'None'.'')))"

definition parse_cell_type :: "string option \<Rightarrow> error + string option" where
  "parse_cell_type cell_type =
     (case cell_type of
        None \<Rightarrow> Inr None
      | Some s \<Rightarrow>
          (let l = lower s in
           if l = ''none'' then Inr None
           else if l \<notin> set [''tumor'', ''non-tumor'']
           then Inl (ValueError
                  ''Invalid value for --cell_type. Must be 'Tumor', 'Non-Tumor', or 'None'.'')
           else Inr (Some l)))"

definition parse_arguments :: "string option \<Rightarrow> string option \<Rightarrow> error + (string option \<times> bool option)" where
  "parse_arguments cell_type prune =
     bind_err (parse_prune prune) (\<lambda>p.
     bind_err (parse_cell_type cell_type) (\<lambda>c. Inr (c, p)))"

section \<open>The annotated matrix and the cell-type subset\<close>

text \<open>
  An \<^verbatim>\<open>AnnData\<close> object row by row: each cell has its name, its row of the expression
  matrix and its row of the \<^verbatim>\<open>obs\<close> table; \<open>obs_columns\<close> are the columns of that
  table. A value of a column is a string or missing (\<^verbatim>\<open>NaN\<close>, as a left join leaves it).
\<close>

datatype cell_value = Str string | NaN

record 'x cell =
  obs_name :: string
  expr :: 'x
  annot :: "(string \<times> cell_value) list"

record 'x anndata =
  obs_columns :: "string list"
  cells :: "'x cell list"

definition value_of :: "'x cell \<Rightarrow> string \<Rightarrow> cell_value" where
  "value_of c col = (case map_of (annot c) col of None \<Rightarrow> NaN | Some v \<Rightarrow> v)"

text \<open>\<^verbatim>\<open>adata.obs[col]\<close>: the column, or \<^verbatim>\<open>KeyError\<close> when the table has no such column.\<close>

definition obs_column :: "'x anndata \<Rightarrow> string \<Rightarrow> error + cell_value list" where
  "obs_column a col =
     (if col \<in> set (obs_columns a) then Inr (map (\<lambda>c. value_of c col) (cells a))
      else Inl (KeyError col))"

text \<open>\<^verbatim>\<open>adata[mask].copy()\<close>: the rows whose mask entry is true.\<close>

definition take_rows :: "bool list \<Rightarrow> 'a list \<Rightarrow> 'a list" where
  "take_rows msk xs = map snd (filter fst (zip msk xs))"

definition index_rows :: "bool list \<Rightarrow> 'x anndata \<Rightarrow> 'x anndata" where
  "index_rows msk a = a\<lparr>cells := take_rows msk (cells a)\<rparr>"

text \<open>
  The element-wise comparisons of a column with the literal \<^verbatim>\<open>'Tumor'\<close>: a missing
  value is not equal to it.
\<close>

definition tumor_mask :: "cell_value list \<Rightarrow> bool list" where
  "tumor_mask col = map (\<lambda>v. v = Str ''Tumor'') col"

definition non_tumor_mask :: "cell_value list \<Rightarrow> bool list" where
  "non_tumor_mask col = map (\<lambda>v. v \<noteq> Str ''Tumor'') col"

text \<open>
  Lines 566 to 577 of \<^verbatim>\<open>run_pyscenic_workflow\<close>. Building the dictionary of
  conditions reads the column, so a missing column raises before the cell type is
  looked up; a cell type that is not a key leaves the matrix as it is.
\<close>

definition subset_cell_type :: "string option \<Rightarrow> 'x anndata \<Rightarrow> error + 'x anndata" where
  "subset_cell_type cell_type a =
     (if truthy cell_type then
        bind_err (obs_column a ''cell_type.harmonized.cancer'') (\<lambda>col.
          let subset_conditions =
                [(''Tumor'', tumor_mask col), (''Non-Tumor'', non_tumor_mask col)]
          in (case map_of subset_conditions (the cell_type) of
                Some msk \<Rightarrow> Inr (index_rows msk a)
              | None \<Rightarrow> Inr a))
      else Inr a)"

section \<open>Collaborators and the state of a run\<close>

text \<open>
  The numerical and plotting libraries and the external \<^verbatim>\<open>pyscenic\<close> executable are
  parameters of the model. \<open>shell\<close> is what \<^verbatim>\<open>subprocess.run(cmd, shell=True)\<close> does:
  the exit status of the command and the filesystem it leaves. \<open>lib\<close> is an in-process
  library call, named with the path arguments the script passes: it returns the new
  matrix or raises, and leaves a filesystem.
\<close>

datatype libcall =
    Read10x string
  | FilterData string
  | AddMetadata string
  | PreprocessData string
  | ClusterAndUmap string "string option"
  | ReadH5ad string
  | LoomCreate string
  | ReadCsv string
  | PlotGeneDistribution string
  | LoomConnect string
  | UmapFitTransform
  | PlotUmap string
  | PlotTopRegulons string string
  | RegulonHeatmap string string string

record 'x env =
  shell :: "string \<Rightarrow> fs \<Rightarrow> nat \<times> fs"
  lib :: "libcall \<Rightarrow> 'x anndata \<Rightarrow> fs \<Rightarrow> (error + 'x anndata) \<times> fs"

text \<open>The fields of \<^verbatim>\<open>WorkflowManager\<close>.\<close>

record workflow_manager =
  wm_base_folder :: string
  wm_dataset_id :: string
  wm_sample_id :: string
  wm_cell_type :: "string option"
  wm_pruning :: "bool option"

text \<open>
  The steps of the two workflow methods, in the order of the script:
  \<^verbatim>\<open>preprocessing_workflow\<close> (\<open>P_\<close>) and \<^verbatim>\<open>run_pyscenic_workflow\<close> (\<open>W_\<close>).
\<close>

datatype stage =
    P_load_paths
  | P_read_expression_data
  | P_filter_data
  | P_add_metadata
  | P_preprocess_data
  | P_cluster_and_umap
  | W_load_paths
  | W_read_anndata
  | W_subset
  | W_update_paths
  | W_create_loom_file
  | W_prepare_commands
  | W_grn_inference
  | W_ctx_inference
  | W_gene_distribution
  | W_aucell
  | W_dimensionality_reduction
  | W_visualize

text \<open>
  The state of a run: the filesystem, the local variables of the workflow methods, and
  two logs kept for the properties below, the stages entered and the commands handed to
  \<^verbatim>\<open>subprocess.run\<close>, both in order.
\<close>

record 'x state =
  fsys :: fs
  entered :: "stage list"
  procs :: "string list"
  loader_paths :: paths
  adata :: "'x anndata"
  grn_inference_config :: config
  ctx_inference_config :: config
  aucell_config :: config

type_synonym 'x action = "'x state \<Rightarrow> error option \<times> 'x state"

definition seq :: "'x action \<Rightarrow> 'x action \<Rightarrow> 'x action" where
  "seq f g st = (case f st of (Some e, st') \<Rightarrow> (Some e, st') | (None, st') \<Rightarrow> g st')"

definition with_value :: "error + 'a \<Rightarrow> ('a \<Rightarrow> 'x action) \<Rightarrow> 'x action" where
  "with_value r f st = (case r of Inl e \<Rightarrow> (Some e, st) | Inr v \<Rightarrow> f v st)"

definition with_path :: "string \<Rightarrow> (string \<Rightarrow> 'x action) \<Rightarrow> 'x action" where
  "with_path k f st = with_value (getitem (loader_paths st) k) f st"

definition call_lib :: "'x env \<Rightarrow> libcall \<Rightarrow> 'x action" where
  "call_lib env c st =
     (case lib env c (adata st) (fsys st) of
        (Inl e, fs') \<Rightarrow> (Some e, st\<lparr>fsys := fs'\<rparr>)
      | (Inr a, fs') \<Rightarrow> (None, st\<lparr>fsys := fs', adata := a\<rparr>))"

text \<open>\<^verbatim>\<open>subprocess.run(cmd, shell=True, check=True)\<close>: a non-zero exit status raises.\<close>

definition subprocess_run :: "'x env \<Rightarrow> string \<Rightarrow> 'x action" where
  "subprocess_run env cmd st =
     (case shell env cmd (fsys st) of
        (rc, fs') \<Rightarrow>
          (if rc \<noteq> 0 then Some (CalledProcessError rc cmd) else None,
           st\<lparr>fsys := fs', procs := procs st @ [cmd]\<rparr>))"

text \<open>
  \<^verbatim>\<open>pd.read_csv(path, ...)\<close> for a local path that is read without decompression
  (\<open>local_path path\<close> and a name ending in \<^verbatim>\<open>.csv\<close>; a statement about the exception
  assumes both): the file is opened first, and a path that is not a file raises the error
  of the failed open before anything is parsed.
\<close>

definition read_csv :: "'x env \<Rightarrow> string \<Rightarrow> 'x action" where
  "read_csv env path st =
     (case open_error (stat_path (fsys st) path) path of
        Some e \<Rightarrow> (Some e, st)
      | None \<Rightarrow> call_lib env (ReadCsv path) st)"

definition make_dir :: "string \<Rightarrow> 'x action" where
  "make_dir d st = (case makedirs (fsys st) d of (r, fs') \<Rightarrow> (r, st\<lparr>fsys := fs'\<rparr>))"

text \<open>Constructing a \<^verbatim>\<open>DataLoader\<close>, or calling its resolver again, with the given pruning.\<close>

definition load_paths :: "workflow_manager \<Rightarrow> bool option \<Rightarrow> 'x action" where
  "load_paths wm pruning st =
     (case get_analysis_paths (fsys st) (wm_base_folder wm) (wm_dataset_id wm) (wm_sample_id wm)
             (wm_cell_type wm) pruning of
        (Inl e, fs') \<Rightarrow> (Some e, st\<lparr>fsys := fs'\<rparr>)
      | (Inr ps, fs') \<Rightarrow> (None, st\<lparr>fsys := fs', loader_paths := ps\<rparr>))"

text \<open>\<^verbatim>\<open>str(cell_type)\<close> inside an f-string.\<close>

definition py_str :: "string option \<Rightarrow> string" where
  "py_str v = (case v of None \<Rightarrow> ''None'' | Some s \<Rightarrow> s)"

section \<open>The workflows\<close>

text \<open>
  What each step does, from \<^verbatim>\<open>preprocessing_workflow\<close> (lines 541 to 554) and
  \<^verbatim>\<open>run_pyscenic_workflow\<close> (lines 560 to 631). The second call of the resolver
  (line 582) passes no pruning argument.
\<close>

fun stage_action :: "'x env \<Rightarrow> workflow_manager \<Rightarrow> stage \<Rightarrow> 'x action" where
  "stage_action env wm P_load_paths = load_paths wm (wm_pruning wm)"
| "stage_action env wm P_read_expression_data =
     with_path ''raw_matrix'' (\<lambda>p. call_lib env (Read10x p))"
| "stage_action env wm P_filter_data =
     with_path ''anndata'' (\<lambda>p. call_lib env (FilterData p))"
| "stage_action env wm P_add_metadata =
     with_path ''metadata'' (\<lambda>p. call_lib env (AddMetadata p))"
| "stage_action env wm P_preprocess_data =
     with_path ''anndata'' (\<lambda>p. call_lib env (PreprocessData p))"
| "stage_action env wm P_cluster_and_umap =
     with_path ''figures'' (\<lambda>f st.
       call_lib env (ClusterAndUmap f (map_of (loader_paths st) ''anndata'')) st)"
| "stage_action env wm W_load_paths = load_paths wm (wm_pruning wm)"
| "stage_action env wm W_read_anndata =
     with_path ''anndata'' (\<lambda>p. call_lib env (ReadH5ad p))"
| "stage_action env wm W_subset =
     (\<lambda>st. with_value (subset_cell_type (wm_cell_type wm) (adata st))
             (\<lambda>a st'. (None, st'\<lparr>adata := a\<rparr>)) st)"
| "stage_action env wm W_update_paths = load_paths wm None"
| "stage_action env wm W_create_loom_file =
     with_path ''filtered_loom'' (\<lambda>p st.
       with_value (obs_column (adata st) ''louvain'') (\<lambda>_.
       with_value (obs_column (adata st) ''cell_type.harmonized.cancer'') (\<lambda>_.
         call_lib env (LoomCreate p))) st)"
| "stage_action env wm W_prepare_commands =
     (\<lambda>st. with_value (run_grn_inference (loader_paths st)) (\<lambda>g.
            with_value (run_ctx_inference (loader_paths st) (wm_pruning wm)) (\<lambda>c.
            with_value (run_aucell (loader_paths st)) (\<lambda>a st'.
              (None, st'\<lparr>grn_inference_config := g, ctx_inference_config := c,
                          aucell_config := a\<rparr>)))) st)"
| "stage_action env wm W_grn_inference =
     (\<lambda>st. seq (subprocess_run env (command (grn_inference_config st)))
                (read_csv env (output_path (grn_inference_config st))) st)"
| "stage_action env wm W_ctx_inference =
     (\<lambda>st. seq (subprocess_run env (command (ctx_inference_config st)))
                (read_csv env (output_path (ctx_inference_config st))) st)"
| "stage_action env wm W_gene_distribution =
     with_path ''figures'' (\<lambda>f.
       call_lib env (PlotGeneDistribution
         (os_path_join f
            [(if truthy (wm_cell_type wm) then the (wm_cell_type wm) @ ''_'' else [])
               @ ''gene_distribution.pdf''])))"
| "stage_action env wm W_aucell =
     (\<lambda>st. seq (subprocess_run env (command (aucell_config st)))
                (call_lib env (LoomConnect (output_path (aucell_config st)))) st)"
| "stage_action env wm W_dimensionality_reduction =
     seq (call_lib env UmapFitTransform)
       (with_path ''figures'' (\<lambda>f.
          seq (make_dir f)
            (call_lib env (PlotUmap (''_'' @ py_str (wm_cell_type wm) @ ''_umap.pdf'')))))"
| "stage_action env wm W_visualize =
     (if truthy (wm_cell_type wm) then
        with_path ''pyscenic_output'' (\<lambda>p.
        with_path ''figures'' (\<lambda>f.
          call_lib env (PlotTopRegulons p (os_path_join f [''tumor_regulon_heatmap.pdf'']))))
      else
        with_path ''pyscenic_output'' (\<lambda>p.
        with_path ''anndata'' (\<lambda>a.
        with_path ''figures'' (\<lambda>f.
          call_lib env (RegulonHeatmap p a (os_path_join f [''regulon_heatmap.pdf'']))))))"

text \<open>
  Statements run one after the other; an exception ends the run where it is raised.
  Entering a step is logged before the step runs.
\<close>

fun run_from :: "'x env \<Rightarrow> workflow_manager \<Rightarrow> stage list \<Rightarrow> 'x action" where
  "run_from env wm [] st = (None, st)"
| "run_from env wm (s # ss) st =
     (case stage_action env wm s (st\<lparr>entered := entered st @ [s]\<rparr>) of
        (Some e, st') \<Rightarrow> (Some e, st')
      | (None, st') \<Rightarrow> run_from env wm ss st')"

definition preprocessing_stages :: "stage list" where
  "preprocessing_stages =
     [P_load_paths, P_read_expression_data, P_filter_data, P_add_metadata,
      P_preprocess_data, P_cluster_and_umap]"

definition pyscenic_stages :: "stage list" where
  "pyscenic_stages =
     [W_load_paths, W_read_anndata, W_subset, W_update_paths, W_create_loom_file,
      W_prepare_commands, W_grn_inference, W_ctx_inference, W_gene_distribution,
      W_aucell, W_dimensionality_reduction, W_visualize]"

definition preprocessing_workflow :: "'x env \<Rightarrow> workflow_manager \<Rightarrow> 'x action" where
  "preprocessing_workflow env wm = run_from env wm preprocessing_stages"

definition run_pyscenic_workflow :: "'x env \<Rightarrow> workflow_manager \<Rightarrow> 'x action" where
  "run_pyscenic_workflow env wm = run_from env wm pyscenic_stages"

text \<open>
  \<^verbatim>\<open>main\<close>: the arguments are parsed, then the two workflows run on one manager. Every
  local variable of the second workflow is assigned by one of its own steps before it is
  read, so the two methods share the record of locals.
\<close>

definition main ::
  "'x env \<Rightarrow> string \<Rightarrow> string \<Rightarrow> string \<Rightarrow> string option \<Rightarrow> string option \<Rightarrow> 'x action" where
  "main env base_folder dataset_id sample_id cell_type prune st =
     (case parse_arguments cell_type prune of
        Inl e \<Rightarrow> (Some e, st)
      | Inr (c, p) \<Rightarrow>
          (let wm = \<lparr>wm_base_folder = base_folder, wm_dataset_id = dataset_id,
                     wm_sample_id = sample_id, wm_cell_type = c, wm_pruning = p\<rparr>
           in seq (preprocessing_workflow env wm) (run_pyscenic_workflow env wm) st))"

definition init_state :: "fs \<Rightarrow> 'x state" where
  "init_state fs =
     \<lparr>fsys = fs, entered = [], procs = [], loader_paths = [],
      adata = \<lparr>obs_columns = [], cells = []\<rparr>,
      grn_inference_config = \<lparr>command = [], output_path = []\<rparr>,
      ctx_inference_config = \<lparr>command = [], output_path = []\<rparr>,
      aucell_config = \<lparr>command = [], output_path = []\<rparr>\<rparr>"

section \<open>Row positions and concrete inputs\<close>

text \<open>The positions of the rows that \<^verbatim>\<open>adata[mask]\<close> keeps.\<close>

definition kept_rows :: "bool list \<Rightarrow> nat list" where
  "kept_rows msk = take_rows msk [0..<length msk]"

text \<open>
  A matrix of three cells: a tumor cell, a cell of another type and a cell without
  annotation. A manager for the tumor subset without pruning. Three environments: the
  tools succeed and write their files; the tools succeed and write nothing; every
  command exits with status 1.
\<close>

definition demo_cells :: "nat cell list" where
  "demo_cells =
     [\<lparr>obs_name = ''AAAC'', expr = 1,
       annot = [(''cell_type.harmonized.cancer'', Str ''Tumor'')]\<rparr>,
      \<lparr>obs_name = ''AAAG'', expr = 2,
       annot = [(''cell_type.harmonized.cancer'', Str ''T-cells'')]\<rparr>,
      \<lparr>obs_name = ''AAAT'', expr = 3, annot = []\<rparr>]"

definition demo_adata :: "nat anndata" where
  "demo_adata =
     \<lparr>obs_columns = [''louvain'', ''cell_type.harmonized.cancer''], cells = demo_cells\<rparr>"

definition bare_adata :: "nat anndata" where
  "bare_adata = \<lparr>obs_columns = [''louvain''], cells = demo_cells\<rparr>"

definition demo_wm :: workflow_manager where
  "demo_wm =
     \<lparr>wm_base_folder = ''/data'', wm_dataset_id = ''GSE'', wm_sample_id = ''S1'',
      wm_cell_type = Some ''Tumor'', wm_pruning = Some False\<rparr>"

definition demo_lib :: "libcall \<Rightarrow> nat anndata \<Rightarrow> fs \<Rightarrow> (error + nat anndata) \<times> fs" where
  "demo_lib c a fs = (Inr (case c of ReadH5ad _ \<Rightarrow> demo_adata | _ \<Rightarrow> a), fs)"

definition demo_env :: "nat env" where
  "demo_env =
     \<lparr>shell = (\<lambda>cmd fs.
        (0, fs @ [(components ''/data/GSE/S1/Tumor_adjacencies.csv'', File),
                  (components ''/data/GSE/S1/Tumor_reg.csv'', File),
                  (components ''/data/GSE/S1/Tumor_pyscenic_output.loom'', File)])),
      lib = demo_lib\<rparr>"

definition idle_env :: "nat env" where
  "idle_env = \<lparr>shell = (\<lambda>cmd fs. (0, fs)), lib = demo_lib\<rparr>"

definition failing_env :: "nat env" where
  "failing_env = \<lparr>shell = (\<lambda>cmd fs. (1, fs)), lib = demo_lib\<rparr>"

text \<open>An environment whose commands succeed and leave a directory where the regulon table should be.\<close>

definition dir_env :: "nat env" where
  "dir_env =
     \<lparr>shell = (\<lambda>cmd fs. (0, fs @ [(components ''/data/GSE/S1/Tumor_reg.csv'', Dir)])),
      lib = demo_lib\<rparr>"

text \<open>
  The output directory and the file-name prefix that the resolver computes (the local
  values \<^verbatim>\<open>paths['output']\<close> after the pruning adjustment, and \<^verbatim>\<open>suffix\<close>).
\<close>

definition output_dir :: "string \<Rightarrow> string \<Rightarrow> string \<Rightarrow> bool option \<Rightarrow> string" where
  "output_dir b d s pr =
     (case pr of
        None \<Rightarrow> os_path_join b [d, s]
      | Some p \<Rightarrow> os_path_join (os_path_join b [d, s]) [if p then ''pruned'' else ''unpruned''])"

definition name_prefix :: "string option \<Rightarrow> string" where
  "name_prefix ct = (if truthy ct then the ct @ ''_'' else [])"

text \<open>A filesystem whose database directory holds one ranking database.\<close>

definition feather_fs :: fs where
  "feather_fs =
     [([''/'', ''data''], Dir),
      ([''/'', ''data'', ''databases''], Dir),
      ([''/'', ''data'', ''databases'', ''hg38_10kbp.feather''], File)]"

text \<open>
  The state of the second workflow once its commands are prepared, when the tools write
  nothing; the five entries the context-inference command reads.
\<close>

definition prepared_state :: "nat state" where
  "prepared_state =
     snd (run_from idle_env demo_wm [W_update_paths, W_prepare_commands] (init_state []))"

definition ctx_paths :: paths where
  "ctx_paths =
     [(''adjacencies'', ''/data/GSE/S1/Tumor_adjacencies.csv''),
      (''ranking_dbs'', ''/data/databases/hg38_10kbp.feather''),
      (''motif_annotations'', ''/data/databases/motifs-v10nr_clust-nr.hgnc-m0.001-o0.0.tbl''),
      (''filtered_loom'', ''/data/GSE/S1/Tumor_filtered_scenic.loom''),
      (''regulons'', ''/data/GSE/S1/Tumor_reg.csv'')]"

text \<open>
  A manager as \<^verbatim>\<open>main\<close> builds it from \<^verbatim>\<open>--prune false\<close> and no cell type, and the
  steps of the pipeline before and after the first external command.
\<close>

definition cli_wm :: workflow_manager where
  "cli_wm =
     \<lparr>wm_base_folder = ''/data'', wm_dataset_id = ''GSE'', wm_sample_id = ''S1'',
      wm_cell_type = None, wm_pruning = Some False\<rparr>"

definition before_grn :: "stage list" where
  "before_grn =
     preprocessing_stages
       @ [W_load_paths, W_read_anndata, W_subset, W_update_paths, W_create_loom_file,
          W_prepare_commands]"

definition after_grn :: "stage list" where
  "after_grn =
     [W_ctx_inference, W_gene_distribution, W_aucell, W_dimensionality_reduction, W_visualize]"

section \<open>The cell-type subset\<close>

lemma take_rows_map: "take_rows (map P xs) xs = filter P xs"
  by (induction xs) (simp_all add: take_rows_def)

lemma set_kept_rows: "set (kept_rows msk) = {i. i < length msk \<and> msk ! i}"
  unfolding kept_rows_def take_rows_def
  by (force simp: in_set_zip image_iff)

lemma non_tumor_mask_Not: "non_tumor_mask col = map Not (tumor_mask col)"
  by (simp add: non_tumor_mask_def tumor_mask_def)

lemma subset_Tumor:
  assumes "obs_column a ''cell_type.harmonized.cancer'' = Inr col"
  shows "subset_cell_type (Some ''Tumor'') a = Inr (index_rows (tumor_mask col) a)"
  using assms by (simp add: subset_cell_type_def truthy_def bind_err_def)

lemma subset_Non_Tumor:
  assumes "obs_column a ''cell_type.harmonized.cancer'' = Inr col"
  shows "subset_cell_type (Some ''Non-Tumor'') a = Inr (index_rows (non_tumor_mask col) a)"
  using assms by (simp add: subset_cell_type_def truthy_def bind_err_def)

text \<open>
  C4. For every matrix that has the annotation column, whatever the column holds
  (missing values included), the selection for \<^verbatim>\<open>Tumor\<close> and the selection for
  \<^verbatim>\<open>Non-Tumor\<close> both succeed, their masks are complements of each other, the row
  positions they keep are disjoint and cover every row, and together they hold exactly
  the rows of the matrix.
\<close>

theorem tumor_non_tumor_partition:
  assumes present: "''cell_type.harmonized.cancer'' \<in> set (obs_columns a)"
  shows "\<exists>col t n.
           obs_column a ''cell_type.harmonized.cancer'' = Inr col \<and>
           length col = length (cells a) \<and>
           subset_cell_type (Some ''Tumor'') a = Inr t \<and>
           subset_cell_type (Some ''Non-Tumor'') a = Inr n \<and>
           cells t = take_rows (tumor_mask col) (cells a) \<and>
           cells n = take_rows (non_tumor_mask col) (cells a) \<and>
           non_tumor_mask col = map Not (tumor_mask col) \<and>
           set (kept_rows (tumor_mask col)) \<inter> set (kept_rows (non_tumor_mask col)) = {} \<and>
           set (kept_rows (tumor_mask col)) \<union> set (kept_rows (non_tumor_mask col))
             = {0..<length (cells a)} \<and>
           mset (cells t) + mset (cells n) = mset (cells a)"
proof -
  define col where "col = map (\<lambda>c. value_of c ''cell_type.harmonized.cancer'') (cells a)"
  have column: "obs_column a ''cell_type.harmonized.cancer'' = Inr col"
    using present by (simp add: obs_column_def col_def)
  have len: "length col = length (cells a)"
    by (simp add: col_def)
  have tm: "tumor_mask col
              = map (\<lambda>c. value_of c ''cell_type.harmonized.cancer'' = Str ''Tumor'') (cells a)"
    by (simp add: tumor_mask_def col_def)
  have nm: "non_tumor_mask col
              = map (\<lambda>c. value_of c ''cell_type.harmonized.cancer'' \<noteq> Str ''Tumor'') (cells a)"
    by (simp add: non_tumor_mask_def col_def)
  have disjoint:
    "set (kept_rows (tumor_mask col)) \<inter> set (kept_rows (non_tumor_mask col)) = {}"
    by (auto simp: set_kept_rows non_tumor_mask_Not)
  have cover:
    "set (kept_rows (tumor_mask col)) \<union> set (kept_rows (non_tumor_mask col))
       = {0..<length (cells a)}"
    using len by (auto simp: set_kept_rows non_tumor_mask_Not tumor_mask_def)
  have union:
    "mset (take_rows (tumor_mask col) (cells a))
       + mset (take_rows (non_tumor_mask col) (cells a)) = mset (cells a)"
    unfolding tm nm take_rows_map by simp
  show ?thesis
    using column len disjoint cover union
    by (intro exI[of _ col] exI[of _ "index_rows (tumor_mask col) a"]
              exI[of _ "index_rows (non_tumor_mask col) a"])
       (simp add: subset_Tumor subset_Non_Tumor index_rows_def non_tumor_mask_Not)
qed

theorem tumor_non_tumor_partition_witness:
  "''cell_type.harmonized.cancer'' \<in> set (obs_columns demo_adata) \<and>
   (\<exists>col t n.
      obs_column demo_adata ''cell_type.harmonized.cancer'' = Inr col \<and>
      subset_cell_type (Some ''Tumor'') demo_adata = Inr t \<and>
      subset_cell_type (Some ''Non-Tumor'') demo_adata = Inr n \<and>
      set (kept_rows (tumor_mask col)) \<inter> set (kept_rows (non_tumor_mask col)) = {} \<and>
      set (kept_rows (tumor_mask col)) \<union> set (kept_rows (non_tumor_mask col))
        = {0..<length (cells demo_adata)} \<and>
      mset (cells t) + mset (cells n) = mset (cells demo_adata))"
proof -
  have h: "''cell_type.harmonized.cancer'' \<in> set (obs_columns demo_adata)"
    by (simp add: demo_adata_def)
  from tumor_non_tumor_partition [OF h] show ?thesis
    using h by blast
qed

text \<open>
  C9 as stated does not hold in the class of the exception: the script defines no
  \<^verbatim>\<open>MissingAnnotationError\<close>. On a matrix without the annotation column the selection
  for \<^verbatim>\<open>Tumor\<close> raises the \<^verbatim>\<open>KeyError\<close> of the failed column lookup.
\<close>

theorem missing_annotation_is_key_error:
  "(case subset_cell_type (Some ''Tumor'') bare_adata of
      Inl e \<Rightarrow>
        e = KeyError ''cell_type.harmonized.cancer'' \<and>
        class_name e = ''KeyError'' \<and>
        class_name e \<noteq> ''MissingAnnotationError''
    | Inr a \<Rightarrow> False)"
  by (simp add: subset_cell_type_def obs_column_def bind_err_def truthy_def bare_adata_def)

text \<open>
  C9, amended. When a subset is requested (the cell type is a non-empty string) and the
  matrix has no annotation column, the selection raises \<^verbatim>\<open>KeyError\<close> for the missing
  column; its result is never the unfiltered matrix.
\<close>

theorem missing_annotation_raises:
  assumes "truthy cell_type"
    and "''cell_type.harmonized.cancer'' \<notin> set (obs_columns a)"
  shows "subset_cell_type cell_type a = Inl (KeyError ''cell_type.harmonized.cancer'') \<and>
         subset_cell_type cell_type a \<noteq> Inr a"
  using assms by (simp add: subset_cell_type_def obs_column_def bind_err_def)

theorem missing_annotation_raises_witness:
  "truthy (Some ''Tumor'') \<and>
   ''cell_type.harmonized.cancer'' \<notin> set (obs_columns bare_adata) \<and>
   subset_cell_type (Some ''Tumor'') bare_adata
     = Inl (KeyError ''cell_type.harmonized.cancer'') \<and>
   subset_cell_type (Some ''Tumor'') bare_adata \<noteq> Inr bare_adata"
proof -
  have t: "truthy (Some ''Tumor'')"
    by (simp add: truthy_def)
  have m: "''cell_type.harmonized.cancer'' \<notin> set (obs_columns bare_adata)"
    by (simp add: bare_adata_def)
  from missing_annotation_raises [OF t m] show ?thesis
    using t m by simp
qed

section \<open>The resolved paths\<close>

text \<open>The dictionary a successful call of the resolver returns, entry by entry.\<close>

lemma get_analysis_paths_Inr:
  assumes "get_analysis_paths fs b d s ct pr = (Inr ps, fs')"
  shows "ps =
     [(''base'', b),
      (''databases'', os_path_join b [''databases'']),
      (''raw_data'', os_path_join b [d, ''raw_data'']),
      (''output'', output_dir b d s pr),
      (''figures'', os_path_join b [d, s, ''figures'']),
      (''human_tfs'', os_path_join (os_path_join b [''databases'']) [''allTFs_hg38.txt'']),
      (''ranking_dbs'', str_join '' '' (glob_feather fs' (os_path_join b [''databases'']))),
      (''motif_annotations'',
         os_path_join (os_path_join b [''databases''])
           [''motifs-v10nr_clust-nr.hgnc-m0.001-o0.0.tbl'']),
      (''raw_matrix'',
         os_path_join (os_path_join b [d, ''raw_data''])
           [''C3L-00004-T1_CPT0001540013_snRNA_ccRCC/outs/raw_feature_bc_matrix/'']),
      (''metadata'',
         os_path_join (os_path_join b [d, ''raw_data''])
           [''GSE240822_GBM_ccRCC_RNA_metadata_CPTAC_samples.tsv.gz'']),
      (''anndata'', os_path_join (output_dir b d s pr) [name_prefix ct @ ''anndata.h5ad'']),
      (''filtered_loom'',
         os_path_join (output_dir b d s pr) [name_prefix ct @ ''filtered_scenic.loom'']),
      (''adjacencies'',
         os_path_join (output_dir b d s pr) [name_prefix ct @ ''adjacencies.csv'']),
      (''regulons'', os_path_join (output_dir b d s pr) [name_prefix ct @ ''reg.csv'']),
      (''pyscenic_output'',
         os_path_join (output_dir b d s pr) [name_prefix ct @ ''pyscenic_output.loom'']),
      (''aucell_mtx'', os_path_join (output_dir b d s pr) [name_prefix ct @ ''auc.csv''])]"
proof (cases pr)
  case None
  with assms show ?thesis
    by (simp add: get_analysis_paths_def base_paths_def adjust_output_def dict_update_def
          file_paths_def output_dir_def name_prefix_def Let_def
          split: if_splits prod.splits option.splits)
next
  case (Some p)
  with assms show ?thesis
    by (simp add: get_analysis_paths_def base_paths_def adjust_output_def dict_update_def
          file_paths_def output_dir_def name_prefix_def Let_def
          split: if_splits prod.splits option.splits)
qed

lemma os_path_join_join: "os_path_join (os_path_join a xs) ys = os_path_join a (xs @ ys)"
  by (simp add: os_path_join_def)

lemma raw_entries:
  assumes first: "get_analysis_paths fs b d s ct pr = (Inr ps, fs1)"
  shows "map_of ps ''raw_matrix''
           = Some (os_path_join b [d, ''raw_data'',
                     ''C3L-00004-T1_CPT0001540013_snRNA_ccRCC/outs/raw_feature_bc_matrix/''])"
    and "map_of ps ''metadata''
           = Some (os_path_join b [d, ''raw_data'',
                     ''GSE240822_GBM_ccRCC_RNA_metadata_CPTAC_samples.tsv.gz''])"
  by (subst get_analysis_paths_Inr [OF first], simp add: os_path_join_join)+

lemma raw_data_literal:
  assumes "b \<noteq> []" "last b \<noteq> CHR ''/''" "d \<noteq> []" "CHR ''/'' \<notin> set d"
    and "f \<noteq> []" "hd f \<noteq> CHR ''/''"
  shows "os_path_join b [d, ''raw_data'', f] = b @ ''/'' @ d @ ''/raw_data/'' @ f"
proof -
  from assms have hd: "hd d \<noteq> CHR ''/''"
    by (cases d) auto
  from assms have lst: "last d \<noteq> CHR ''/''"
    using last_in_set by metis
  have j1: "join2 b d = b @ ''/'' @ d"
    using assms hd by (simp add: join2_def)
  have j2: "join2 (b @ ''/'' @ d) ''raw_data'' = b @ ''/'' @ d @ ''/raw_data''"
    using assms lst by (simp add: join2_def)
  have j3: "join2 (b @ ''/'' @ d @ ''/raw_data'') f = b @ ''/'' @ d @ ''/raw_data/'' @ f"
    using assms by (simp add: join2_def)
  show ?thesis
    by (simp only: os_path_join_def foldl.simps j1 j2 j3)
qed

lemma resolved_obtain:
  assumes "case fst r of Inr x \<Rightarrow> True | Inl e \<Rightarrow> False"
  shows "\<exists>ps f. r = (Inr ps, f)"
  using assms by (cases r; cases "fst r") auto

text \<open>
  C10. Whenever the resolver succeeds, the raw matrix directory and the metadata file are
  the two fixed names under the \<^verbatim>\<open>raw_data\<close> directory of the dataset, joined to
  the base folder and the dataset identifier by \<^verbatim>\<open>os.path.join\<close>; a second
  resolution with the same base folder and dataset, whatever its sample, cell type and
  pruning, returns the same two entries. For a base folder and a dataset identifier that
  are plain path segments the two entries are the literal strings
  \<^verbatim>\<open><base>/<dataset_id>/raw_data/<name>\<close>.
\<close>

theorem raw_inputs_fixed:
  assumes first: "get_analysis_paths fs b d s ct pr = (Inr ps, fs1)"
    and second: "get_analysis_paths fs' b d s' ct' pr' = (Inr ps', fs2)"
  shows "map_of ps ''raw_matrix''
           = Some (os_path_join b [d, ''raw_data'',
                     ''C3L-00004-T1_CPT0001540013_snRNA_ccRCC/outs/raw_feature_bc_matrix/'']) \<and>
         map_of ps ''metadata''
           = Some (os_path_join b [d, ''raw_data'',
                     ''GSE240822_GBM_ccRCC_RNA_metadata_CPTAC_samples.tsv.gz'']) \<and>
         map_of ps' ''raw_matrix'' = map_of ps ''raw_matrix'' \<and>
         map_of ps' ''metadata'' = map_of ps ''metadata'' \<and>
         (b \<noteq> [] \<and> last b \<noteq> CHR ''/'' \<and> d \<noteq> [] \<and> CHR ''/'' \<notin> set d \<longrightarrow>
            map_of ps ''raw_matrix''
              = Some (b @ ''/'' @ d @ ''/raw_data/''
                        @ ''C3L-00004-T1_CPT0001540013_snRNA_ccRCC/outs/raw_feature_bc_matrix/'') \<and>
            map_of ps ''metadata''
              = Some (b @ ''/'' @ d @ ''/raw_data/''
                        @ ''GSE240822_GBM_ccRCC_RNA_metadata_CPTAC_samples.tsv.gz''))"
proof (intro conjI impI)
  show "map_of ps ''raw_matrix''
           = Some (os_path_join b [d, ''raw_data'',
                     ''C3L-00004-T1_CPT0001540013_snRNA_ccRCC/outs/raw_feature_bc_matrix/''])"
    by (rule raw_entries(1) [OF first])
  show "map_of ps ''metadata''
           = Some (os_path_join b [d, ''raw_data'',
                     ''GSE240822_GBM_ccRCC_RNA_metadata_CPTAC_samples.tsv.gz''])"
    by (rule raw_entries(2) [OF first])
  show "map_of ps' ''raw_matrix'' = map_of ps ''raw_matrix''"
    by (simp only: raw_entries(1) [OF first] raw_entries(1) [OF second])
  show "map_of ps' ''metadata'' = map_of ps ''metadata''"
    by (simp only: raw_entries(2) [OF first] raw_entries(2) [OF second])
next
  assume wf: "b \<noteq> [] \<and> last b \<noteq> CHR ''/'' \<and> d \<noteq> [] \<and> CHR ''/'' \<notin> set d"
  have "os_path_join b [d, ''raw_data'',
          ''C3L-00004-T1_CPT0001540013_snRNA_ccRCC/outs/raw_feature_bc_matrix/'']
        = b @ ''/'' @ d @ ''/raw_data/''
            @ ''C3L-00004-T1_CPT0001540013_snRNA_ccRCC/outs/raw_feature_bc_matrix/''"
    using wf by (intro raw_data_literal) simp_all
  then show "map_of ps ''raw_matrix''
              = Some (b @ ''/'' @ d @ ''/raw_data/''
                        @ ''C3L-00004-T1_CPT0001540013_snRNA_ccRCC/outs/raw_feature_bc_matrix/'')"
    by (simp only: raw_entries(1) [OF first])
next
  assume wf: "b \<noteq> [] \<and> last b \<noteq> CHR ''/'' \<and> d \<noteq> [] \<and> CHR ''/'' \<notin> set d"
  have "os_path_join b [d, ''raw_data'',
          ''GSE240822_GBM_ccRCC_RNA_metadata_CPTAC_samples.tsv.gz'']
        = b @ ''/'' @ d @ ''/raw_data/''
            @ ''GSE240822_GBM_ccRCC_RNA_metadata_CPTAC_samples.tsv.gz''"
    using wf by (intro raw_data_literal) simp_all
  then show "map_of ps ''metadata''
              = Some (b @ ''/'' @ d @ ''/raw_data/''
                        @ ''GSE240822_GBM_ccRCC_RNA_metadata_CPTAC_samples.tsv.gz'')"
    by (simp only: raw_entries(2) [OF first])
qed

theorem raw_inputs_fixed_witness:
  "(\<exists>ps f ps' f'.
      get_analysis_paths [] ''/data'' ''GSE'' ''S1'' (Some ''Tumor'') (Some False) = (Inr ps, f) \<and>
      get_analysis_paths [] ''/data'' ''GSE'' ''S2'' None None = (Inr ps', f') \<and>
      map_of ps ''raw_matrix''
        = Some ''/data/GSE/raw_data/C3L-00004-T1_CPT0001540013_snRNA_ccRCC/outs/raw_feature_bc_matrix/'' \<and>
      map_of ps ''metadata''
        = Some ''/data/GSE/raw_data/GSE240822_GBM_ccRCC_RNA_metadata_CPTAC_samples.tsv.gz'' \<and>
      map_of ps' ''raw_matrix'' = map_of ps ''raw_matrix'' \<and>
      map_of ps' ''metadata'' = map_of ps ''metadata'')"
proof -
  have "case fst (get_analysis_paths [] ''/data'' ''GSE'' ''S1'' (Some ''Tumor'') (Some False)) of
          Inr x \<Rightarrow> True | Inl e \<Rightarrow> False"
    by code_simp
  then obtain ps f where one:
    "get_analysis_paths [] ''/data'' ''GSE'' ''S1'' (Some ''Tumor'') (Some False) = (Inr ps, f)"
    using resolved_obtain by blast
  have "case fst (get_analysis_paths [] ''/data'' ''GSE'' ''S2'' None None) of
          Inr x \<Rightarrow> True | Inl e \<Rightarrow> False"
    by code_simp
  then obtain ps' f' where two:
    "get_analysis_paths [] ''/data'' ''GSE'' ''S2'' None None = (Inr ps', f')"
    using resolved_obtain by blast
  have wf: "''/data'' \<noteq> [] \<and> last ''/data'' \<noteq> CHR ''/'' \<and> ''GSE'' \<noteq> [] \<and> CHR ''/'' \<notin> set ''GSE''"
    by simp
  from raw_inputs_fixed [OF one two] wf one two show ?thesis
    by (rule_tac exI[of _ ps], rule_tac exI[of _ f], rule_tac exI[of _ ps'], rule_tac exI[of _ f']) simp
qed

lemma other_entries:
  assumes one: "get_analysis_paths fs1 b d s ct pr = (Inr ps1, fs1')"
    and two: "get_analysis_paths fs2 b d s ct pr = (Inr ps2, fs2')"
    and k: "k \<noteq> ''ranking_dbs''"
  shows "map_of ps1 k = map_of ps2 k"
  apply (subst get_analysis_paths_Inr [OF one])
  apply (subst get_analysis_paths_Inr [OF two])
  using k apply (simp only: map_of.simps fst_conv snd_conv fun_upd_apply)
  apply simp
  done

text \<open>
  C6 as stated does not hold: the entry \<^verbatim>\<open>ranking_dbs\<close> is the listing of the database
  directory at the time of the call, so the same context resolved over two filesystems
  gives two different dictionaries.
\<close>

theorem listing_changes_paths:
  "fst (get_analysis_paths [] ''/data'' ''GSE'' ''S1'' None None)
     \<noteq> fst (get_analysis_paths feather_fs ''/data'' ''GSE'' ''S1'' None None) \<and>
   (case fst (get_analysis_paths [] ''/data'' ''GSE'' ''S1'' None None) of
      Inr ps \<Rightarrow> map_of ps ''ranking_dbs'' = Some []
    | Inl e \<Rightarrow> False) \<and>
   (case fst (get_analysis_paths feather_fs ''/data'' ''GSE'' ''S1'' None None) of
      Inr ps \<Rightarrow> map_of ps ''ranking_dbs'' = Some ''/data/databases/hg38_10kbp.feather''
    | Inl e \<Rightarrow> False)"
  by code_simp

text \<open>
  C6, amended. Two successful resolutions of the same context, over any two filesystems,
  return dictionaries with the same keys in the same order and the same value at every
  key except \<^verbatim>\<open>ranking_dbs\<close>. For a base folder without the wildcard characters of
  \<^verbatim>\<open>glob\<close>, and a base folder, dataset and sample that are plain paths (no component
  \<^verbatim>\<open>.\<close> or \<^verbatim>\<open>..\<close>), that entry is the space-separated list of the
  \<^verbatim>\<open>*.feather\<close> entries found in the database directory when the call is made.
\<close>

theorem paths_depend_on_listing_only:
  assumes one: "get_analysis_paths fs1 b d s ct pr = (Inr ps1, fs1')"
    and two: "get_analysis_paths fs2 b d s ct pr = (Inr ps2, fs2')"
  shows "map fst ps1 = map fst ps2 \<and>
         (\<forall>k. k \<noteq> ''ranking_dbs'' \<longrightarrow> map_of ps1 k = map_of ps2 k) \<and>
         (no_wildcards b \<and> plain_path b \<and> plain_path d \<and> plain_path s \<longrightarrow>
            map_of ps1 ''ranking_dbs''
              = Some (str_join '' '' (glob_feather fs1' (os_path_join b [''databases'']))))"
proof (intro conjI allI impI)
  show "map fst ps1 = map fst ps2"
    by (subst get_analysis_paths_Inr [OF one], subst get_analysis_paths_Inr [OF two]) simp
  show "map_of ps1 k = map_of ps2 k" if "k \<noteq> ''ranking_dbs''" for k
    using one two that by (rule other_entries)
  show "map_of ps1 ''ranking_dbs''
           = Some (str_join '' '' (glob_feather fs1' (os_path_join b [''databases''])))"
    by (subst get_analysis_paths_Inr [OF one]) simp
qed

theorem paths_depend_on_listing_only_witness:
  "(\<exists>ps1 f1 ps2 f2.
      get_analysis_paths [] ''/data'' ''GSE'' ''S1'' (Some ''Tumor'') (Some False) = (Inr ps1, f1) \<and>
      get_analysis_paths feather_fs ''/data'' ''GSE'' ''S1'' (Some ''Tumor'') (Some False)
        = (Inr ps2, f2) \<and>
      map fst ps1 = map fst ps2 \<and>
      map_of ps1 ''adjacencies'' = map_of ps2 ''adjacencies'' \<and>
      no_wildcards ''/data'' \<and> plain_path ''/data'' \<and> plain_path ''GSE'' \<and>
      plain_path ''S1'' \<and>
      map_of ps1 ''ranking_dbs''
        = Some (str_join '' '' (glob_feather f1 (os_path_join ''/data'' [''databases'']))) \<and>
      map_of ps2 ''ranking_dbs''
        = Some (str_join '' '' (glob_feather f2 (os_path_join ''/data'' [''databases'']))))"
proof -
  have literal: "no_wildcards ''/data'' \<and> plain_path ''/data'' \<and> plain_path ''GSE'' \<and>
                 plain_path ''S1''"
    by code_simp
  have "case fst (get_analysis_paths [] ''/data'' ''GSE'' ''S1'' (Some ''Tumor'') (Some False)) of
          Inr x \<Rightarrow> True | Inl e \<Rightarrow> False"
    by code_simp
  then obtain ps1 f1 where one:
    "get_analysis_paths [] ''/data'' ''GSE'' ''S1'' (Some ''Tumor'') (Some False) = (Inr ps1, f1)"
    using resolved_obtain by blast
  have "case fst (get_analysis_paths feather_fs ''/data'' ''GSE'' ''S1'' (Some ''Tumor'')
                    (Some False)) of
          Inr x \<Rightarrow> True | Inl e \<Rightarrow> False"
    by code_simp
  then obtain ps2 f2 where two:
    "get_analysis_paths feather_fs ''/data'' ''GSE'' ''S1'' (Some ''Tumor'') (Some False)
       = (Inr ps2, f2)"
    using resolved_obtain by blast
  from paths_depend_on_listing_only [OF one two] literal
  have keys: "map fst ps1 = map fst ps2"
    and adj: "map_of ps1 ''adjacencies'' = map_of ps2 ''adjacencies''"
    and dbs1: "map_of ps1 ''ranking_dbs''
        = Some (str_join '' '' (glob_feather f1 (os_path_join ''/data'' [''databases''])))"
    by simp_all
  from paths_depend_on_listing_only [OF two one] literal
  have dbs2: "map_of ps2 ''ranking_dbs''
        = Some (str_join '' '' (glob_feather f2 (os_path_join ''/data'' [''databases''])))"
    by simp
  from one two keys adj literal dbs1 dbs2 show ?thesis
    by blast
qed

text \<open>
  What the loop over the first five entries achieves: after a successful resolution the
  base folder, the database directory, the raw-data directory, the sample directory and
  the figures directory exist, and resolving the same context again on the filesystem
  left behind succeeds, returns the same dictionary and changes nothing (a directory that
  is already there is no error).
\<close>

lemma node_at_append:
  "node_at fs q = Some n \<Longrightarrow> node_at (fs @ es) q = Some n"
  by (auto simp: node_at_def map_add_Some_iff split: if_splits)

lemma node_at_new:
  "node_at fs p = None \<Longrightarrow> node_at (fs @ [(p, Dir)]) p = Some Dir"
  by (auto simp: node_at_def map_add_Some_iff split: if_splits)

lemma make_each_post:
  assumes "make_each fs ss = (None, fs')"
  shows "(\<forall>s\<in>set ss. node_at fs' (components s) = Some Dir) \<and>
         (\<forall>q n. node_at fs q = Some n \<longrightarrow> node_at fs' q = Some n)"
  using assms
proof (induction ss arbitrary: fs)
  case Nil
  then show ?case by simp
next
  case (Cons s ss)
  show ?case
  proof (cases "node_at fs (components s)")
    case None
    with Cons.prems have rest: "make_each (fs @ [(components s, Dir)]) ss = (None, fs')"
      by simp
    from Cons.IH [OF rest] node_at_new [OF None]
      node_at_append [of fs _ _ "[(components s, Dir)]"]
    show ?thesis by auto
  next
    case (Some n)
    with Cons.prems have dir: "n = Dir" and rest: "make_each fs ss = (None, fs')"
      by (cases n; simp)+
    from Cons.IH [OF rest] Some dir show ?thesis by auto
  qed
qed

lemma make_each_existing:
  "\<forall>s\<in>set ss. node_at fs (components s) = Some Dir \<Longrightarrow> make_each fs ss = (None, fs)"
  by (induction ss) simp_all

lemma makedirs_all_post:
  assumes "makedirs_all fs ds = (None, fs')"
  shows "(\<forall>d\<in>set ds. d \<noteq> [] \<and>
            (\<forall>s\<in>set (path_chain d). node_at fs' (components s) = Some Dir)) \<and>
         (\<forall>q n. node_at fs q = Some n \<longrightarrow> node_at fs' q = Some n)"
  using assms
proof (induction ds arbitrary: fs)
  case Nil
  then show ?case by simp
next
  case (Cons d ds)
  from Cons.prems obtain fs1 where
    one: "makedirs fs d = (None, fs1)" and rest: "makedirs_all fs1 ds = (None, fs')"
    by (auto split: prod.splits option.splits)
  from one have ne: "d \<noteq> []" and each: "make_each fs (path_chain d) = (None, fs1)"
    by (auto simp: makedirs_def split: if_splits)
  from make_each_post [OF each] Cons.IH [OF rest] ne show ?case
    by auto
qed

lemma makedirs_all_existing:
  assumes "\<forall>d\<in>set ds. d \<noteq> [] \<and>
             (\<forall>s\<in>set (path_chain d). node_at fs (components s) = Some Dir)"
  shows "makedirs_all fs ds = (None, fs)"
  using assms by (induction ds) (simp_all add: makedirs_def make_each_existing)

lemma makedirs_all_is_dir:
  assumes "makedirs_all fs ds = (None, fs')" and "d \<in> set ds"
  shows "is_dir fs' d"
proof -
  from makedirs_all_post [OF assms(1)] assms(2) have ne: "d \<noteq> []"
    and pre: "\<forall>s\<in>set (path_chain d). node_at fs' (components s) = Some Dir"
    by auto
  have "d \<in> set (path_chain d)"
    by (simp add: path_chain_def)
  with pre have "node_at fs' (components d) = Some Dir"
    by blast
  with ne show ?thesis by (simp add: is_dir_def)
qed

lemma resolution_makes_directories:
  assumes ok: "get_analysis_paths fs b d s ct pr = (Inr ps, fs')"
  shows "is_dir fs' b \<and>
         is_dir fs' (os_path_join b [''databases'']) \<and>
         is_dir fs' (os_path_join b [d, ''raw_data'']) \<and>
         is_dir fs' (os_path_join b [d, s]) \<and>
         is_dir fs' (os_path_join b [d, s, ''figures'']) \<and>
         get_analysis_paths fs' b d s ct pr = (Inr ps, fs')"
proof -
  from ok have made: "makedirs_all fs (map snd (base_paths b d s)) = (None, fs')"
    by (auto simp: get_analysis_paths_def Let_def split: if_splits prod.splits option.splits)
  have dirs: "is_dir fs' x" if "x \<in> set (map snd (base_paths b d s))" for x
    using made that by (rule makedirs_all_is_dir)
  have again: "makedirs_all fs' (map snd (base_paths b d s)) = (None, fs')"
    using makedirs_all_post [OF made] by (intro makedirs_all_existing) blast
  have same: "get_analysis_paths fs' b d s ct pr = (Inr ps, fs')"
    using ok made again
    by (auto simp: get_analysis_paths_def Let_def split: if_splits prod.splits option.splits)
  from dirs same show ?thesis
    by (simp add: base_paths_def)
qed

text \<open>
  C7 at a concrete input: on an empty filesystem, with pruning set to false, the resolver
  returns \<^verbatim>\<open>/data/GSE/S1/unpruned\<close> as the output directory and the path of the
  matrix file inside it, and has made \<^verbatim>\<open>/data/GSE/S1\<close> but not the output directory:
  the directories are made before the pruning segment is appended.
\<close>

theorem pruned_output_dir_not_created:
  "(case get_analysis_paths [] ''/data'' ''GSE'' ''S1'' (Some ''Tumor'') (Some False) of
      (Inr ps, fs') \<Rightarrow>
         map_of ps ''output'' = Some ''/data/GSE/S1/unpruned'' \<and>
         map_of ps ''anndata'' = Some ''/data/GSE/S1/unpruned/Tumor_anndata.h5ad'' \<and>
         is_dir fs' ''/data/GSE/S1'' \<and>
         \<not> is_dir fs' ''/data/GSE/S1/unpruned''
    | (Inl e, fs') \<Rightarrow> False)"
  by code_simp

section \<open>Fail-fast sequencing\<close>

lemma call_lib_entered: "call_lib env c st = (r, st') \<Longrightarrow> entered st' = entered st"
  by (auto simp: call_lib_def split: prod.splits sum.splits)

lemma subprocess_run_entered: "subprocess_run env cmd st = (r, st') \<Longrightarrow> entered st' = entered st"
  by (auto simp: subprocess_run_def split: prod.splits)

lemma read_csv_entered: "read_csv env p st = (r, st') \<Longrightarrow> entered st' = entered st"
  by (auto simp: read_csv_def dest: call_lib_entered split: option.splits)

lemma make_dir_entered: "make_dir d st = (r, st') \<Longrightarrow> entered st' = entered st"
  by (auto simp: make_dir_def split: prod.splits)

lemma load_paths_entered: "load_paths wm pr st = (r, st') \<Longrightarrow> entered st' = entered st"
  by (auto simp: load_paths_def split: prod.splits sum.splits)

lemma seq_entered:
  assumes "seq f g st = (r, st')"
    and "\<And>s r' s'. f s = (r', s') \<Longrightarrow> entered s' = entered s"
    and "\<And>s r' s'. g s = (r', s') \<Longrightarrow> entered s' = entered s"
  shows "entered st' = entered st"
  using assms by (auto simp: seq_def split: prod.splits option.splits)

lemma with_value_entered:
  assumes "with_value v f st = (r, st')"
    and "\<And>x s r' s'. f x s = (r', s') \<Longrightarrow> entered s' = entered s"
  shows "entered st' = entered st"
  using assms by (auto simp: with_value_def split: sum.splits)

lemma with_path_entered:
  assumes "with_path k f st = (r, st')"
    and "\<And>x s r' s'. f x s = (r', s') \<Longrightarrow> entered s' = entered s"
  shows "entered st' = entered st"
  using assms unfolding with_path_def by (rule with_value_entered)

lemma stage_action_entered:
  "stage_action env wm s st = (r, st') \<Longrightarrow> entered st' = entered st"
proof (cases s)
  case W_grn_inference
  assume "stage_action env wm s st = (r, st')"
  then show ?thesis unfolding W_grn_inference stage_action.simps
    by (elim seq_entered) (erule subprocess_run_entered read_csv_entered)+
next
  case W_ctx_inference
  assume "stage_action env wm s st = (r, st')"
  then show ?thesis unfolding W_ctx_inference stage_action.simps
    by (elim seq_entered) (erule subprocess_run_entered read_csv_entered)+
next
  case W_aucell
  assume "stage_action env wm s st = (r, st')"
  then show ?thesis unfolding W_aucell stage_action.simps
    by (elim seq_entered) (erule subprocess_run_entered call_lib_entered)+
next
  case W_dimensionality_reduction
  assume "stage_action env wm s st = (r, st')"
  then show ?thesis unfolding W_dimensionality_reduction stage_action.simps
    by (elim seq_entered with_path_entered) (erule make_dir_entered call_lib_entered)+
next
  case W_visualize
  assume "stage_action env wm s st = (r, st')"
  then show ?thesis unfolding W_visualize stage_action.simps
    by (auto split: if_splits elim!: with_path_entered dest: call_lib_entered)
next
  case W_prepare_commands
  assume "stage_action env wm s st = (r, st')"
  then show ?thesis unfolding W_prepare_commands stage_action.simps
    by (auto simp: with_value_def split: sum.splits)
next
  case W_create_loom_file
  assume "stage_action env wm s st = (r, st')"
  then show ?thesis unfolding W_create_loom_file stage_action.simps
    by (auto simp: with_value_def with_path_def split: sum.splits dest: call_lib_entered)
next
  case W_subset
  assume "stage_action env wm s st = (r, st')"
  then show ?thesis unfolding W_subset stage_action.simps
    by (auto simp: with_value_def split: sum.splits)
qed (auto elim!: with_path_entered dest: call_lib_entered load_paths_entered)

lemma run_from_append:
  "run_from env wm (pre @ post) st =
     (case run_from env wm pre st of
        (Some e, st') \<Rightarrow> (Some e, st')
      | (None, st') \<Rightarrow> run_from env wm post st')"
  by (induction pre arbitrary: st) (auto split: prod.splits option.splits)

lemma run_from_entered_ok:
  "run_from env wm ss st = (None, st') \<Longrightarrow> entered st' = entered st @ ss"
proof (induction ss arbitrary: st)
  case Nil
  then show ?case by simp
next
  case (Cons s ss)
  from Cons.prems obtain st1 where
    step: "stage_action env wm s (st\<lparr>entered := entered st @ [s]\<rparr>) = (None, st1)"
    and rest: "run_from env wm ss st1 = (None, st')"
    by (auto split: prod.splits option.splits)
  from stage_action_entered [OF step] have "entered st1 = entered st @ [s]"
    by simp
  with Cons.IH [OF rest] show ?case by simp
qed

lemma main_as_run_from:
  "seq (preprocessing_workflow env wm) (run_pyscenic_workflow env wm) st
     = run_from env wm (preprocessing_stages @ pyscenic_stages) st"
  by (simp add: seq_def preprocessing_workflow_def run_pyscenic_workflow_def run_from_append
           split: prod.splits option.splits)

lemma all_stages_distinct: "distinct (preprocessing_stages @ pyscenic_stages)"
  by (simp add: preprocessing_stages_def pyscenic_stages_def)

lemma main_parse_error:
  "parse_arguments cell_type prune = Inl e \<Longrightarrow>
     main env base_folder dataset_id sample_id cell_type prune st = (Some e, st)"
  by (simp add: main_def)

text \<open>
  C5. In a run of \<^verbatim>\<open>main\<close> whose arguments parse, if the steps before some step of the
  pipeline complete and that step raises (an exception of a library call, a missing file,
  or a command that exits with a non-zero status), then the run ends with that exception,
  the steps entered are exactly the ones up to and including the failing step, each once,
  and none of the later steps is among them.
\<close>

theorem fail_fast:
  assumes parsed: "parse_arguments cell_type prune = Inr (c, p)"
    and wm: "wm = \<lparr>wm_base_folder = base_folder, wm_dataset_id = dataset_id,
                    wm_sample_id = sample_id, wm_cell_type = c, wm_pruning = p\<rparr>"
    and order: "preprocessing_stages @ pyscenic_stages = pre @ s # post"
    and before: "run_from env wm pre st = (None, st1)"
    and fails: "stage_action env wm s (st1\<lparr>entered := entered st1 @ [s]\<rparr>) = (Some e, st2)"
  shows "main env base_folder dataset_id sample_id cell_type prune st = (Some e, st2) \<and>
         entered st2 = entered st @ pre @ [s] \<and>
         set post \<inter> set (pre @ [s]) = {}"
proof -
  have "run_from env wm (pre @ s # post) st = (Some e, st2)"
    using before fails by (simp add: run_from_append)
  then have run: "main env base_folder dataset_id sample_id cell_type prune st = (Some e, st2)"
    using parsed wm order by (simp add: main_def main_as_run_from Let_def)
  have "entered st1 = entered st @ pre"
    using before by (rule run_from_entered_ok)
  with stage_action_entered [OF fails] have log: "entered st2 = entered st @ pre @ [s]"
    by simp
  have "distinct (pre @ s # post)"
    using all_stages_distinct order by simp
  then have "set post \<inter> set (pre @ [s]) = {}"
    by auto
  with run log show ?thesis by simp
qed

theorem fail_fast_witness:
  "parse_arguments None (Some ''false'') = Inr (None, Some False) \<and>
   preprocessing_stages @ pyscenic_stages = before_grn @ W_grn_inference # after_grn \<and>
   fst (run_from failing_env cli_wm before_grn (init_state [])) = None \<and>
   fst (main failing_env ''/data'' ''GSE'' ''S1'' None (Some ''false'') (init_state []))
     = Some (CalledProcessError 1
         ''pyscenic grn /data/GSE/S1/filtered_scenic.loom /data/databases/allTFs_hg38.txt -o /data/GSE/S1/adjacencies.csv --num_workers 20'') \<and>
   entered (snd (main failing_env ''/data'' ''GSE'' ''S1'' None (Some ''false'') (init_state [])))
     = before_grn @ [W_grn_inference] \<and>
   set after_grn \<inter> set (before_grn @ [W_grn_inference]) = {}"
proof -
  define st1 where "st1 = snd (run_from failing_env cli_wm before_grn (init_state []))"
  define st2 where
    "st2 = snd (stage_action failing_env cli_wm W_grn_inference
                  (st1\<lparr>entered := entered st1 @ [W_grn_inference]\<rparr>))"
  have parsed: "parse_arguments None (Some ''false'') = Inr (None, Some False)"
    by code_simp
  have order: "preprocessing_stages @ pyscenic_stages = before_grn @ W_grn_inference # after_grn"
    by (simp add: preprocessing_stages_def pyscenic_stages_def before_grn_def after_grn_def)
  have ok: "fst (run_from failing_env cli_wm before_grn (init_state [])) = None"
    by code_simp
  then have before: "run_from failing_env cli_wm before_grn (init_state []) = (None, st1)"
    by (simp add: st1_def prod_eq_iff)
  have cmd: "command (grn_inference_config st1)
       = ''pyscenic grn /data/GSE/S1/filtered_scenic.loom /data/databases/allTFs_hg38.txt -o /data/GSE/S1/adjacencies.csv --num_workers 20''"
    unfolding st1_def by code_simp
  have "fst (stage_action failing_env cli_wm W_grn_inference
                  (st1\<lparr>entered := entered st1 @ [W_grn_inference]\<rparr>))
          = Some (CalledProcessError 1 (command (grn_inference_config st1)))"
    by (simp add: seq_def subprocess_run_def failing_env_def)
  then have fails: "stage_action failing_env cli_wm W_grn_inference
                  (st1\<lparr>entered := entered st1 @ [W_grn_inference]\<rparr>)
          = (Some (CalledProcessError 1 (command (grn_inference_config st1))), st2)"
    by (simp add: st2_def prod_eq_iff)
  from fail_fast [OF parsed cli_wm_def order before fails]
  show ?thesis
    using parsed order ok cmd by (simp add: init_state_def)
qed

section \<open>The scoring step and its input\<close>

text \<open>
  C3 as stated does not hold: the scoring step has no check of its input. Entered right
  after the commands are prepared, when no regulon file exists, it starts the
  \<^verbatim>\<open>pyscenic aucell\<close> command and, the command and the loom reader succeeding, raises
  nothing.
\<close>

theorem aucell_runs_without_regulons:
  "(case run_from idle_env demo_wm [W_update_paths, W_prepare_commands] (init_state []) of
      (r, st) \<Rightarrow>
        r = None \<and>
        map_of (loader_paths st) ''regulons'' = Some ''/data/GSE/S1/Tumor_reg.csv'' \<and>
        \<not> is_file (fsys st) ''/data/GSE/S1/Tumor_reg.csv'' \<and>
        stat_path (fsys st) ''/data/GSE/S1/Tumor_reg.csv'' = NoEntry \<and>
        (case stage_action idle_env demo_wm W_aucell st of
           (r', st') \<Rightarrow>
             r' = None \<and>
             procs st' =
               [''pyscenic aucell /data/GSE/S1/Tumor_filtered_scenic.loom /data/GSE/S1/Tumor_reg.csv --output /data/GSE/S1/Tumor_pyscenic_output.loom --num_workers 20'']))"
  by code_simp

text \<open>
  C3, amended. If the context-inference command exits with status 0 and the path declared
  as its output (the regulon table, a plain local path that ends in \<^verbatim>\<open>.csv\<close>, so
  that it is read without decompression) cannot then be opened as a file, the run
  raises the error of the failed open when it reads that table, inside the
  context-inference step: \<^verbatim>\<open>FileNotFoundError\<close> when nothing exists at the path,
  \<^verbatim>\<open>IsADirectoryError\<close> when a directory is there, \<^verbatim>\<open>NotADirectoryError\<close> when a
  file is in the way. The scoring step is not entered and no further command is started.
  The scoring step itself always starts its command when it is entered.
\<close>

theorem missing_regulons_stop_before_aucell:
  assumes ran: "shell env (command (ctx_inference_config st)) (fsys st) = (0, fs')"
    and local: "local_path (output_path (ctx_inference_config st))"
    and csv: "suffix ''.csv'' (output_path (ctx_inference_config st))"
    and unreadable:
      "open_error (stat_path fs' (output_path (ctx_inference_config st)))
         (output_path (ctx_inference_config st)) = Some e"
  shows "run_from env wm (W_ctx_inference # W_gene_distribution # W_aucell # rest) st =
           (Some e,
            st\<lparr>fsys := fs', entered := entered st @ [W_ctx_inference],
               procs := procs st @ [command (ctx_inference_config st)]\<rparr>) \<and>
         (stat_path fs' (output_path (ctx_inference_config st)) = NoEntry \<longrightarrow>
            e = FileNotFoundError (output_path (ctx_inference_config st))) \<and>
         (stat_path fs' (output_path (ctx_inference_config st)) = IsDir \<longrightarrow>
            e = IsADirectoryError (output_path (ctx_inference_config st))) \<and>
         (stat_path fs' (output_path (ctx_inference_config st)) = NotDir \<longrightarrow>
            e = NotADirectoryError (output_path (ctx_inference_config st))) \<and>
         (\<forall>st0. procs (snd (stage_action env wm W_aucell st0))
                  = procs st0 @ [command (aucell_config st0)])"
proof (intro conjI impI)
  show "run_from env wm (W_ctx_inference # W_gene_distribution # W_aucell # rest) st =
           (Some e,
            st\<lparr>fsys := fs', entered := entered st @ [W_ctx_inference],
               procs := procs st @ [command (ctx_inference_config st)]\<rparr>)"
    using ran unreadable by (simp add: seq_def subprocess_run_def read_csv_def)
  show "e = FileNotFoundError (output_path (ctx_inference_config st))"
    if "stat_path fs' (output_path (ctx_inference_config st)) = NoEntry"
    using unreadable that by simp
  show "e = IsADirectoryError (output_path (ctx_inference_config st))"
    if "stat_path fs' (output_path (ctx_inference_config st)) = IsDir"
    using unreadable that by simp
  show "e = NotADirectoryError (output_path (ctx_inference_config st))"
    if "stat_path fs' (output_path (ctx_inference_config st)) = NotDir"
    using unreadable that by simp
  show "\<forall>st0. procs (snd (stage_action env wm W_aucell st0))
                  = procs st0 @ [command (aucell_config st0)]"
    by (simp add: seq_def subprocess_run_def call_lib_def read_csv_def
          split: prod.splits sum.splits)
qed

theorem missing_regulons_stop_before_aucell_witness:
  "output_path (ctx_inference_config prepared_state) = ''/data/GSE/S1/Tumor_reg.csv'' \<and>
   local_path ''/data/GSE/S1/Tumor_reg.csv'' \<and>
   suffix ''.csv'' ''/data/GSE/S1/Tumor_reg.csv'' \<and>
   stat_path (fsys prepared_state) ''/data/GSE/S1/Tumor_reg.csv'' = NoEntry \<and>
   fst (run_from idle_env demo_wm
          [W_ctx_inference, W_gene_distribution, W_aucell, W_dimensionality_reduction,
           W_visualize] prepared_state)
     = Some (FileNotFoundError ''/data/GSE/S1/Tumor_reg.csv'') \<and>
   entered (snd (run_from idle_env demo_wm
          [W_ctx_inference, W_gene_distribution, W_aucell, W_dimensionality_reduction,
           W_visualize] prepared_state))
     = [W_update_paths, W_prepare_commands, W_ctx_inference] \<and>
   fst (run_from dir_env demo_wm
          [W_ctx_inference, W_gene_distribution, W_aucell, W_dimensionality_reduction,
           W_visualize] prepared_state)
     = Some (IsADirectoryError ''/data/GSE/S1/Tumor_reg.csv'') \<and>
   entered (snd (run_from dir_env demo_wm
          [W_ctx_inference, W_gene_distribution, W_aucell, W_dimensionality_reduction,
           W_visualize] prepared_state))
     = [W_update_paths, W_prepare_commands, W_ctx_inference]"
proof -
  let ?reg = "''/data/GSE/S1/Tumor_reg.csv''"
  let ?left = "fsys prepared_state @ [(components ?reg, Dir)]"
  have out: "output_path (ctx_inference_config prepared_state) = ?reg"
    unfolding prepared_state_def by code_simp
  have log: "entered prepared_state = [W_update_paths, W_prepare_commands]"
    unfolding prepared_state_def by code_simp
  have local: "local_path ?reg"
    by code_simp
  have ran: "shell idle_env (command (ctx_inference_config prepared_state)) (fsys prepared_state)
     = (0, fsys prepared_state)"
    by (simp add: idle_env_def)
  have absent: "stat_path (fsys prepared_state) ?reg = NoEntry"
    unfolding prepared_state_def by code_simp
  have ran_dir: "shell dir_env (command (ctx_inference_config prepared_state)) (fsys prepared_state)
     = (0, ?left)"
    by (simp add: dir_env_def)
  have dir: "stat_path ?left ?reg = IsDir"
    unfolding prepared_state_def by code_simp
  have e1: "open_error (stat_path (fsys prepared_state)
                 (output_path (ctx_inference_config prepared_state)))
              (output_path (ctx_inference_config prepared_state))
            = Some (FileNotFoundError ?reg)"
    unfolding out absent by simp
  have e2: "open_error (stat_path ?left (output_path (ctx_inference_config prepared_state)))
              (output_path (ctx_inference_config prepared_state))
            = Some (IsADirectoryError ?reg)"
    unfolding out dir by simp
  have l: "local_path (output_path (ctx_inference_config prepared_state))"
    unfolding out by (rule local)
  have csv: "suffix ''.csv'' ?reg"
    by code_simp
  have c: "suffix ''.csv'' (output_path (ctx_inference_config prepared_state))"
    unfolding out by (rule csv)
  from missing_regulons_stop_before_aucell [OF ran l c e1,
         of demo_wm "[W_dimensionality_reduction, W_visualize]"]
       missing_regulons_stop_before_aucell [OF ran_dir l c e2,
         of demo_wm "[W_dimensionality_reduction, W_visualize]"]
  show ?thesis
    using out log local csv absent by simp
qed

section \<open>The pruning flag of the context-inference command\<close>

lemma sublist_across_separator:
  assumes "c \<notin> set w"
  shows "sublist w (xs @ c # ys) \<longleftrightarrow> sublist w xs \<or> sublist w ys"
proof
  assume "sublist w (xs @ c # ys)"
  then consider "sublist w xs" | "sublist w (c # ys)"
    | w1 w2 where "w = w1 @ w2" "suffix w1 xs" "prefix w2 (c # ys)"
    by (auto simp: sublist_append)
  then show "sublist w xs \<or> sublist w ys"
  proof cases
    case 1
    then show ?thesis by simp
  next
    case 2
    then have "prefix w (c # ys) \<or> sublist w ys"
      by (simp add: sublist_Cons_right)
    with assms show ?thesis
      by (cases w) (auto simp: prefix_Cons)
  next
    case 3
    show ?thesis
    proof (cases w2)
      case Nil
      with 3 show ?thesis by auto
    next
      case (Cons a as)
      with 3 assms show ?thesis by (auto simp: prefix_Cons)
    qed
  qed
next
  assume "sublist w xs \<or> sublist w ys"
  then show "sublist w (xs @ c # ys)"
    by (auto simp: sublist_append sublist_Cons_right)
qed

lemma flag_in_base_command:
  "sublist ''--no_pruning'' (ctx_base_command adj dbs motifs loom reg) \<longleftrightarrow>
     sublist ''--no_pruning'' adj \<or> sublist ''--no_pruning'' dbs \<or>
     sublist ''--no_pruning'' motifs \<or> sublist ''--no_pruning'' loom \<or>
     sublist ''--no_pruning'' reg"
  unfolding ctx_base_command_def
  by (simp add: sublist_across_separator sublist_Cons_right prefix_Cons)

lemma flag_appended:
  "sublist ''--no_pruning'' (base @ '' --no_pruning'')"
  by (metis sublist_append_leftI append.assoc append_Cons append_Nil)

text \<open>
  C8 as stated does not hold for every input: the command is built by string
  interpolation, so a base folder whose name contains the text of the flag puts it into
  the command, as a word of its own, although pruning is true.
\<close>

theorem flag_text_from_a_path:
  "(case fst (get_analysis_paths [] ''/data --no_pruning x'' ''GSE'' ''S1'' None (Some True)) of
      Inr ps \<Rightarrow>
        (case run_ctx_inference ps (Some True) of
           Inr cfg \<Rightarrow>
             sublist ''--no_pruning'' (command cfg) \<and>
             prefix ''pyscenic ctx /data --no_pruning x/GSE/S1/pruned/adjacencies.csv ''
               (command cfg)
         | Inl e \<Rightarrow> False)
    | Inl e \<Rightarrow> False)"
  by code_simp

text \<open>
  C8, amended. The command that \<^verbatim>\<open>run_ctx_inference\<close> builds is the base command
  followed by \<^verbatim>\<open> --no_pruning\<close> when the pruning option is the explicit value false, and
  the base command alone when it is true or unset. The text of the flag occurs in the
  command exactly when pruning is false or one of the five interpolated path entries
  contains it; so for path entries that do not contain that text, the command contains
  the flag if and only if pruning is false.
\<close>

theorem no_pruning_flag:
  assumes built: "run_ctx_inference ps pruning = Inr cfg"
  shows "\<exists>adj dbs motifs loom reg.
           getitem ps ''adjacencies'' = Inr adj \<and>
           getitem ps ''ranking_dbs'' = Inr dbs \<and>
           getitem ps ''motif_annotations'' = Inr motifs \<and>
           getitem ps ''filtered_loom'' = Inr loom \<and>
           getitem ps ''regulons'' = Inr reg \<and>
           command cfg
             = ctx_base_command adj dbs motifs loom reg
                 @ (if pruning = Some False then '' --no_pruning'' else []) \<and>
           (sublist ''--no_pruning'' (command cfg) \<longleftrightarrow>
              pruning = Some False \<or>
              sublist ''--no_pruning'' adj \<or> sublist ''--no_pruning'' dbs \<or>
              sublist ''--no_pruning'' motifs \<or> sublist ''--no_pruning'' loom \<or>
              sublist ''--no_pruning'' reg) \<and>
           (\<not> sublist ''--no_pruning'' adj \<and> \<not> sublist ''--no_pruning'' dbs \<and>
            \<not> sublist ''--no_pruning'' motifs \<and> \<not> sublist ''--no_pruning'' loom \<and>
            \<not> sublist ''--no_pruning'' reg \<longrightarrow>
              (sublist ''--no_pruning'' (command cfg) \<longleftrightarrow> pruning = Some False))"
proof -
  from built obtain adj dbs motifs loom reg where
    adj: "getitem ps ''adjacencies'' = Inr adj" and
    dbs: "getitem ps ''ranking_dbs'' = Inr dbs" and
    motifs: "getitem ps ''motif_annotations'' = Inr motifs" and
    loom: "getitem ps ''filtered_loom'' = Inr loom" and
    reg: "getitem ps ''regulons'' = Inr reg"
    by (auto simp: run_ctx_inference_def bind_err_def split: sum.splits)
  let ?base = "ctx_base_command adj dbs motifs loom reg"
  have cmd: "command cfg = ?base @ (if pruning = Some False then '' --no_pruning'' else [])"
    using built adj dbs motifs loom reg
    by (auto simp: run_ctx_inference_def bind_err_def Let_def)
  have occurs: "sublist ''--no_pruning'' (command cfg) \<longleftrightarrow>
              pruning = Some False \<or>
              sublist ''--no_pruning'' adj \<or> sublist ''--no_pruning'' dbs \<or>
              sublist ''--no_pruning'' motifs \<or> sublist ''--no_pruning'' loom \<or>
              sublist ''--no_pruning'' reg"
  proof (cases "pruning = Some False")
    case True
    then show ?thesis
      unfolding cmd using flag_appended [of ?base] by simp
  next
    case False
    then show ?thesis
      unfolding cmd by (simp add: flag_in_base_command)
  qed
  show ?thesis
    apply (rule exI[of _ adj], rule exI[of _ dbs], rule exI[of _ motifs],
           rule exI[of _ loom], rule exI[of _ reg])
    using adj dbs motifs loom reg cmd occurs by blast
qed

theorem no_pruning_flag_witness:
  "(\<exists>cfg. run_ctx_inference ctx_paths (Some False) = Inr cfg \<and>
          sublist ''--no_pruning'' (command cfg)) \<and>
   (\<exists>cfg. run_ctx_inference ctx_paths (Some True) = Inr cfg \<and>
          \<not> sublist ''--no_pruning'' (command cfg)) \<and>
   (\<exists>cfg. run_ctx_inference ctx_paths None = Inr cfg \<and>
          \<not> sublist ''--no_pruning'' (command cfg))"
proof -
  have entries:
    "getitem ctx_paths ''adjacencies'' = Inr ''/data/GSE/S1/Tumor_adjacencies.csv''"
    "getitem ctx_paths ''ranking_dbs'' = Inr ''/data/databases/hg38_10kbp.feather''"
    "getitem ctx_paths ''motif_annotations''
       = Inr ''/data/databases/motifs-v10nr_clust-nr.hgnc-m0.001-o0.0.tbl''"
    "getitem ctx_paths ''filtered_loom'' = Inr ''/data/GSE/S1/Tumor_filtered_scenic.loom''"
    "getitem ctx_paths ''regulons'' = Inr ''/data/GSE/S1/Tumor_reg.csv''"
    by (simp_all add: ctx_paths_def getitem_def)
  have clean:
    "\<not> sublist ''--no_pruning'' ''/data/GSE/S1/Tumor_adjacencies.csv''"
    "\<not> sublist ''--no_pruning'' ''/data/databases/hg38_10kbp.feather''"
    "\<not> sublist ''--no_pruning'' ''/data/databases/motifs-v10nr_clust-nr.hgnc-m0.001-o0.0.tbl''"
    "\<not> sublist ''--no_pruning'' ''/data/GSE/S1/Tumor_filtered_scenic.loom''"
    "\<not> sublist ''--no_pruning'' ''/data/GSE/S1/Tumor_reg.csv''"
    by code_simp+
  have built: "\<exists>cfg. run_ctx_inference ctx_paths pr = Inr cfg" for pr
    by (simp add: run_ctx_inference_def bind_err_def entries Let_def)
  from built [of "Some False"] obtain c1 where c1: "run_ctx_inference ctx_paths (Some False) = Inr c1"
    by blast
  from built [of "Some True"] obtain c2 where c2: "run_ctx_inference ctx_paths (Some True) = Inr c2"
    by blast
  from built [of None] obtain c3 where c3: "run_ctx_inference ctx_paths None = Inr c3"
    by blast
  from no_pruning_flag [OF c1] have "sublist ''--no_pruning'' (command c1)"
    by auto
  moreover from no_pruning_flag [OF c2] entries clean
  have "\<not> sublist ''--no_pruning'' (command c2)"
    by auto
  moreover from no_pruning_flag [OF c3] entries clean
  have "\<not> sublist ''--no_pruning'' (command c3)"
    by auto
  ultimately show ?thesis
    using c1 c2 c3 by blast
qed

section \<open>The paths the workflow uses, and the cell type from the command line\<close>

text \<open>
  C1 at a concrete input: for the cell type \<^verbatim>\<open>Tumor\<close> with pruning false, the resolver
  called with the pruning (as the \<^verbatim>\<open>DataLoader\<close> constructor calls it) places the
  adjacencies under \<^verbatim>\<open>unpruned/\<close>; the workflow calls the resolver again without the
  pruning argument, and the loom export, the adjacencies, the regulons and the scoring
  output it then uses lie directly under the sample directory. The three commands of a
  complete run show it; the context-inference command reads \<^verbatim>\<open>Tumor_adjacencies.csv\<close>
  and carries the flag.
\<close>

theorem workflow_paths_drop_pruning:
  "(case get_analysis_paths [] ''/data'' ''GSE'' ''S1'' (Some ''Tumor'') (Some False) of
      (Inr ps, fs') \<Rightarrow>
        map_of ps ''adjacencies'' = Some ''/data/GSE/S1/unpruned/Tumor_adjacencies.csv''
    | (Inl e, fs') \<Rightarrow> False) \<and>
   (case run_pyscenic_workflow demo_env demo_wm (init_state []) of
      (r, st) \<Rightarrow>
        r = None \<and>
        map_of (loader_paths st) ''output'' = Some ''/data/GSE/S1'' \<and>
        map_of (loader_paths st) ''filtered_loom''
          = Some ''/data/GSE/S1/Tumor_filtered_scenic.loom'' \<and>
        map_of (loader_paths st) ''adjacencies'' = Some ''/data/GSE/S1/Tumor_adjacencies.csv'' \<and>
        map_of (loader_paths st) ''regulons'' = Some ''/data/GSE/S1/Tumor_reg.csv'' \<and>
        map_of (loader_paths st) ''pyscenic_output''
          = Some ''/data/GSE/S1/Tumor_pyscenic_output.loom'' \<and>
        procs st =
          [''pyscenic grn /data/GSE/S1/Tumor_filtered_scenic.loom /data/databases/allTFs_hg38.txt -o /data/GSE/S1/Tumor_adjacencies.csv --num_workers 20'',
           ''pyscenic ctx /data/GSE/S1/Tumor_adjacencies.csv  --annotations_fname /data/databases/motifs-v10nr_clust-nr.hgnc-m0.001-o0.0.tbl --expression_mtx_fname /data/GSE/S1/Tumor_filtered_scenic.loom --output /data/GSE/S1/Tumor_reg.csv --mask_dropouts --num_workers 20 --no_pruning'',
           ''pyscenic aucell /data/GSE/S1/Tumor_filtered_scenic.loom /data/GSE/S1/Tumor_reg.csv --output /data/GSE/S1/Tumor_pyscenic_output.loom --num_workers 20''])"
  by code_simp

text \<open>
  C2 at a concrete input: \<^verbatim>\<open>parse_arguments\<close> accepts \<^verbatim>\<open>Tumor\<close> in any letter case
  and returns it lower-cased; the resolver compares with the exact strings and rejects
  the lower-cased value, so a run of \<^verbatim>\<open>main\<close> with \<^verbatim>\<open>--cell_type Tumor\<close> ends in its
  first step with \<^verbatim>\<open>ValueError\<close>.
\<close>

theorem cli_cell_type_rejected:
  "parse_arguments (Some ''Tumor'') None = Inr (Some ''tumor'', None) \<and>
   parse_arguments (Some ''NON-TUMOR'') None = Inr (Some ''non-tumor'', None) \<and>
   get_analysis_paths fs b d s (Some ''tumor'') pr
     = (Inl (ValueError ''cell_type must be 'Tumor', 'Non-Tumor', or None''), fs) \<and>
   get_analysis_paths fs b d s (Some ''non-tumor'') pr
     = (Inl (ValueError ''cell_type must be 'Tumor', 'Non-Tumor', or None''), fs) \<and>
   main env b d s (Some ''Tumor'') None st
     = (Some (ValueError ''cell_type must be 'Tumor', 'Non-Tumor', or None''),
        st\<lparr>entered := entered st @ [P_load_paths]\<rparr>)"
proof -
  have p1: "parse_arguments (Some ''Tumor'') None = Inr (Some ''tumor'', None)"
    by code_simp
  have p2: "parse_arguments (Some ''NON-TUMOR'') None = Inr (Some ''non-tumor'', None)"
    by code_simp
  have r1: "get_analysis_paths fs b d s (Some ''tumor'') pr
     = (Inl (ValueError ''cell_type must be 'Tumor', 'Non-Tumor', or None''), fs)" for fs pr
    by (simp add: get_analysis_paths_def truthy_def)
  have r2: "get_analysis_paths fs b d s (Some ''non-tumor'') pr
     = (Inl (ValueError ''cell_type must be 'Tumor', 'Non-Tumor', or None''), fs)"
    by (simp add: get_analysis_paths_def truthy_def)
  have m: "main env b d s (Some ''Tumor'') None st
     = (Some (ValueError ''cell_type must be 'Tumor', 'Non-Tumor', or None''),
        st\<lparr>entered := entered st @ [P_load_paths]\<rparr>)"
    by (simp add: main_def p1 seq_def preprocessing_workflow_def preprocessing_stages_def
          load_paths_def r1)
  from p1 p2 r1 r2 m show ?thesis by simp
qed

end
